theory Spec2Isabelle
  imports Complex_Main "HOL-Library.Sublist"
begin

section \<open>Python strings\<close>

text \<open>
  A Python \<open>str\<close> is a sequence of Unicode code points, so a string is a list of natural
  numbers. ASCII text is written \<open>str ''...''\<close>; the few non-ASCII characters of the two
  scripts are given by their code points.
\<close>

type_synonym str = "nat list"

definition str :: "string \<Rightarrow> str" where
  "str s = map of_char s"

text \<open>\<open>sub in s\<close>.\<close>

fun str_contains :: "str \<Rightarrow> str \<Rightarrow> bool" where
  "str_contains sub [] = (sub = [])"
| "str_contains sub (c # cs) = (prefix sub (c # cs) \<or> str_contains sub cs)"

text \<open>\<open>s.endswith(suf)\<close>.\<close>

definition endswith :: "str \<Rightarrow> str \<Rightarrow> bool" where
  "endswith s suf = suffix suf s"

text \<open>
  \<open>s.replace(old, new)\<close>: every occurrence of \<open>old\<close>, found from left to right without
  overlap, is replaced; the text put in is not scanned again. An empty \<open>old\<close> matches
  before every character and at the end.
\<close>

fun replace_scan :: "str \<Rightarrow> str \<Rightarrow> str \<Rightarrow> str" where
  "replace_scan old new [] = []"
| "replace_scan old new (c # cs) =
     (if old \<noteq> [] \<and> prefix old (c # cs)
      then new @ replace_scan old new (drop (length old - 1) cs)
      else c # replace_scan old new cs)"

definition str_replace :: "str \<Rightarrow> str \<Rightarrow> str \<Rightarrow> str" where
  "str_replace old new s =
     (if old = [] then new @ concat (map (\<lambda>c. c # new) s) else replace_scan old new s)"

text \<open>The characters Python's \<open>str.strip()\<close> and \<open>str.split()\<close> take for whitespace.\<close>

definition is_space :: "nat \<Rightarrow> bool" where
  "is_space c =
     ((9 \<le> c \<and> c \<le> 13) \<or> (28 \<le> c \<and> c \<le> 32) \<or> c = 133 \<or> c = 160 \<or> c = 5760
      \<or> (8192 \<le> c \<and> c \<le> 8202) \<or> c = 8232 \<or> c = 8233 \<or> c = 8239 \<or> c = 8287
      \<or> c = 12288)"

definition str_strip :: "str \<Rightarrow> str" where
  "str_strip s = rev (dropWhile is_space (rev (dropWhile is_space s)))"

function str_split :: "str \<Rightarrow> str list" where
  "str_split s =
     (case dropWhile is_space s of
        [] \<Rightarrow> []
      | c # cs \<Rightarrow>
          (c # takeWhile (\<lambda>x. \<not> is_space x) cs) # str_split (dropWhile (\<lambda>x. \<not> is_space x) cs))"
  by pat_completeness auto
termination
proof (relation "measure length")
  show "wf (measure length)" by simp
next
  fix s :: str and c cs
  assume a: "dropWhile is_space s = c # cs"
  have "length (dropWhile (\<lambda>x. \<not> is_space x) cs) \<le> length cs"
    by (rule length_dropWhile_le)
  moreover have "length (c # cs) \<le> length s"
    using length_dropWhile_le [of is_space s] a by simp
  ultimately show "(dropWhile (\<lambda>x. \<not> is_space x) cs, s) \<in> measure length"
    by simp
qed

text \<open>\<open>os.path.basename\<close> on a POSIX path: what follows the last slash.\<close>

definition basename :: "str \<Rightarrow> str" where
  "basename p = rev (takeWhile (\<lambda>c. c \<noteq> 47) (rev p))"

section \<open>Errors, numbers and the operating system\<close>

datatype pyerror =
  FileNotFoundError | PermissionError | IsADirectoryError | FileExistsError
  | UnicodeError | OverflowError | IndexError | OSError

datatype encoding = LocaleDefault | UTF8

text \<open>
  What the scripts ask of the operating system. \<open>listdir\<close> is the working directory in
  the order \<open>os.scandir\<close> gives it; \<open>read_text enc p\<close> is \<open>open(p, 'r', encoding=enc).read()\<close>;
  \<open>write_text enc p s\<close> opens \<open>p\<close> for writing and writes \<open>s\<close>; \<open>print_text s\<close> is
  \<open>print(s)\<close>, which raises where standard output cannot take \<open>s\<close>; \<open>script_path n\<close> is
  \<open>Path(__file__).parent / n\<close>; \<open>glob_other\<close> is \<open>glob.glob\<close> for the patterns that are not
  modelled below. A call that raises returns the exception.
\<close>

record world =
  listdir :: "str list"
  isfile :: "str \<Rightarrow> bool"
  getsize :: "str \<Rightarrow> pyerror + nat"
  read_text :: "encoding \<Rightarrow> str \<Rightarrow> pyerror + str"
  write_text :: "encoding \<Rightarrow> str \<Rightarrow> str \<Rightarrow> pyerror option"
  mkdir :: "str \<Rightarrow> pyerror option"
  script_path :: "str \<Rightarrow> str"
  path_exists :: "str \<Rightarrow> bool"
  copy2 :: "str \<Rightarrow> str \<Rightarrow> pyerror option"
  print_text :: "str \<Rightarrow> pyerror option"
  glob_other :: "str \<Rightarrow> str list"

text \<open>
  The output calls a run issues (\<open>print\<close>, writing a file, \<open>mkdir\<close>, \<open>copy2\<close>), in
  order, and how the run ends. A call that raises is the last one of the trace, and the
  run ends with \<open>Uncaught\<close>; normal termination is \<open>Exit 0\<close>.
\<close>

datatype effect =
  Print str | WriteFile str encoding str | MakeDir str | CopyFile str str

datatype outcome = Exit nat | Uncaught pyerror

text \<open>
  A statement gives the calls it issued and the exception it raised, if any. Statements
  in sequence stop at the first exception; a statement before the rest of the program
  either passes its exception on, uncaught, or lets the rest run.
\<close>

definition and_then ::
  "effect list \<times> pyerror option \<Rightarrow> effect list \<times> pyerror option \<Rightarrow> effect list \<times> pyerror option"
where
  "and_then a b = (case snd a of Some err \<Rightarrow> a | None \<Rightarrow> (fst a @ fst b, snd b))"

definition before_end ::
  "effect list \<times> pyerror option \<Rightarrow> effect list \<times> outcome \<Rightarrow> effect list \<times> outcome"
where
  "before_end a k =
     (case snd a of Some err \<Rightarrow> (fst a, Uncaught err) | None \<Rightarrow> (fst a @ fst k, snd k))"

definition py_print :: "world \<Rightarrow> str \<Rightarrow> effect list \<times> pyerror option" where
  "py_print w s = ([Print s], print_text w s)"

definition py_write :: "world \<Rightarrow> encoding \<Rightarrow> str \<Rightarrow> str \<Rightarrow> effect list \<times> pyerror option" where
  "py_write w enc p s = ([WriteFile p enc s], write_text w enc p s)"

definition py_mkdir :: "world \<Rightarrow> str \<Rightarrow> effect list \<times> pyerror option" where
  "py_mkdir w p = ([MakeDir p], mkdir w p)"

definition py_copy2 :: "world \<Rightarrow> str \<Rightarrow> str \<Rightarrow> effect list \<times> pyerror option" where
  "py_copy2 w src dst = ([CopyFile src dst], copy2 w src dst)"

text \<open>
  Numbers. \<open>size\<close> starts as an \<open>int\<close> and becomes a \<open>float\<close> at the first division.
  Every double met here is a non-negative dyadic rational, \<open>PyFloat m e\<close> standing for
  \<open>m / 2 ^ e\<close>: the conversion of an \<open>int\<close> rounds to 53 significant bits, ties to even,
  and dividing a double by \<open>1024.0\<close> only lowers its exponent (the values stay above 1,
  far from underflow), so the arithmetic of the model is the arithmetic of the doubles.
\<close>

datatype pynum = PyInt nat | PyFloat nat nat

fun bit_length :: "nat \<Rightarrow> nat" where
  "bit_length n = (if n = 0 then 0 else Suc (bit_length (n div 2)))"

definition float_of_int :: "nat \<Rightarrow> pyerror + nat" where
  "float_of_int n =
     (if n < 2 ^ 53 then Inr n
      else
        let e = bit_length n - 53;
            q = n div 2 ^ e;
            r = n mod 2 ^ e;
            h = 2 ^ (e - 1);
            m = (if h < r \<or> (r = h \<and> odd q) then q + 1 else q)
        in if 2 ^ 1024 \<le> m * 2 ^ e then Inl OverflowError else Inr (m * 2 ^ e))"

text \<open>\<open>size < 1024.0\<close>: Python compares an \<open>int\<close> with a \<open>float\<close> exactly.\<close>

fun lt_1024 :: "pynum \<Rightarrow> bool" where
  "lt_1024 (PyInt n) = (n < 1024)"
| "lt_1024 (PyFloat m e) = (m < 1024 * 2 ^ e)"

text \<open>\<open>size /= 1024.0\<close>.\<close>

fun truediv_1024 :: "pynum \<Rightarrow> pyerror + pynum" where
  "truediv_1024 (PyInt n) =
     (case float_of_int n of Inl err \<Rightarrow> Inl err | Inr m \<Rightarrow> Inr (PyFloat m 10))"
| "truediv_1024 (PyFloat m e) = Inr (PyFloat m (e + 10))"

fun nat_digits :: "nat \<Rightarrow> str" where
  "nat_digits n = (if n < 10 then [48 + n] else nat_digits (n div 10) @ [48 + n mod 10])"

text \<open>The integer nearest to \<open>a / b\<close>, a tie going to the even one.\<close>

definition round_half_even :: "nat \<Rightarrow> nat \<Rightarrow> nat" where
  "round_half_even a b =
     (let q = a div b; r = a mod b
      in if 2 * r < b then q else if b < 2 * r then q + 1 else if even q then q else q + 1)"

text \<open>
  \<open>f"{x:.1f}"\<close> for the double \<open>m / 2 ^ e\<close>: the exact value rounded to tenths, ties to
  even, printed with one digit after the point.
\<close>

definition fixed_1f :: "nat \<Rightarrow> nat \<Rightarrow> str" where
  "fixed_1f m e =
     (let t = round_half_even (10 * m) (2 ^ e)
      in nat_digits (t div 10) @ str ''.'' @ nat_digits (t mod 10))"

fun format_1f :: "pynum \<Rightarrow> pyerror + str" where
  "format_1f (PyInt n) =
     (case float_of_int n of Inl err \<Rightarrow> Inl err | Inr m \<Rightarrow> Inr (fixed_1f m 0))"
| "format_1f (PyFloat m e) = Inr (fixed_1f m e)"

section \<open>The default generator\<close>

subsection \<open>\<open>get_file_size\<close>\<close>

fun size_loop :: "pynum \<Rightarrow> str list \<Rightarrow> pyerror + str" where
  "size_loop sz [] =
     (case format_1f sz of Inl err \<Rightarrow> Inl err | Inr s \<Rightarrow> Inr (s @ str ''TB''))"
| "size_loop sz (unit # units) =
     (if lt_1024 sz
      then (case format_1f sz of Inl err \<Rightarrow> Inl err | Inr s \<Rightarrow> Inr (s @ unit))
      else (case truediv_1024 sz of
              Inl err \<Rightarrow> Inl err
            | Inr sz' \<Rightarrow> size_loop sz' units))"

text \<open>The body of the \<open>try\<close> once \<open>os.path.getsize\<close> has returned \<open>n\<close>.\<close>

definition human_size :: "nat \<Rightarrow> pyerror + str" where
  "human_size n = size_loop (PyInt n) [str ''B'', str ''KB'', str ''MB'', str ''GB'']"

definition get_file_size :: "world \<Rightarrow> str \<Rightarrow> str" where
  "get_file_size w filepath =
     (case getsize w filepath of
        Inl err \<Rightarrow> str ''Unknown''
      | Inr n \<Rightarrow> (case human_size n of Inl err \<Rightarrow> str ''Unknown'' | Inr s \<Rightarrow> s))"

subsection \<open>\<open>get_arch_info\<close>\<close>

text \<open>
  The inner \<open>if\<close> chains have no \<open>else\<close>: when none of their tests holds, control leaves
  the outer chain and reaches the \<open>return 'Unknown'\<close> that ends the function.
\<close>

definition get_arch_info :: "str \<Rightarrow> str" where
  "get_arch_info filename =
     (if str_contains (str ''amd64'') filename then
        (if str_contains (str ''linux'') filename then str ''64-bit''
         else if str_contains (str ''darwin'') filename then str ''Intel''
         else if str_contains (str ''windows'') filename then str ''64-bit''
         else str ''Unknown'')
      else if str_contains (str ''arm64'') filename then
        (if str_contains (str ''linux'') filename then str ''ARM64''
         else if str_contains (str ''darwin'') filename then str ''Apple Silicon''
         else str ''Unknown'')
      else if str_contains (str ''armv7'') filename then str ''ARMv7''
      else str ''Unknown'')"

subsection \<open>\<open>glob.glob\<close> in the working directory\<close>

text \<open>
  \<open>fnmatch\<close> for patterns of literal characters, \<open>*\<close> and \<open>?\<close>, which are the patterns
  of the generators. A pattern with a wildcard is matched against the directory listing,
  names starting with a dot left out unless the pattern starts with one; a pattern
  without wildcard is looked up as a name. For a pattern with a bracket or a directory
  part the result is left to the world.
\<close>

fun fnmatch :: "str \<Rightarrow> str \<Rightarrow> bool" where
  "fnmatch [] [] = True"
| "fnmatch (c # cs) [] = False"
| "fnmatch [] (p # ps) = (p = 42 \<and> fnmatch [] ps)"
| "fnmatch (c # cs) (p # ps) =
     (if p = 42 then fnmatch (c # cs) ps \<or> fnmatch cs (p # ps)
      else (p = 63 \<or> p = c) \<and> fnmatch cs ps)"

definition ishidden :: "str \<Rightarrow> bool" where
  "ishidden p = (case p of [] \<Rightarrow> False | c # cs \<Rightarrow> c = 46)"

definition has_magic :: "str \<Rightarrow> bool" where
  "has_magic p = (\<exists>c \<in> set p. c = 42 \<or> c = 63 \<or> c = 91)"

definition glob :: "world \<Rightarrow> str \<Rightarrow> str list" where
  "glob w pattern =
     (if 91 \<in> set pattern \<or> 47 \<in> set pattern then glob_other w pattern
      else if has_magic pattern then
        filter (\<lambda>name. fnmatch name pattern)
          (if ishidden pattern then listdir w else filter (\<lambda>name. \<not> ishidden name) (listdir w))
      else if pattern \<in> set (listdir w) then [pattern] else [])"

subsection \<open>\<open>generate_platform_section\<close>\<close>

definition platform_card_open :: "str \<Rightarrow> str \<Rightarrow> str" where
  \<open>platform_card_open platform_name platform_icon =
     str ''                <div class="platform-card">\<newline>                    <h3><span class="platform-icon">''
     @ platform_icon @ str ''</span>'' @ platform_name @ str ''</h3>''\<close>

definition download_entry :: "str \<Rightarrow> str \<Rightarrow> str \<Rightarrow> str" where
  \<open>download_entry filename arch_info filesize =
     str ''\<newline>                    <a href="'' @ filename @ str ''" class="download-link">''
     @ filename @ str ''</a>\<newline>                    <div class="file-info">''
     @ arch_info @ str '' '' @ [8226] @ str '' '' @ filesize @ str ''</div>''\<close>

definition platform_card_close :: str where
  \<open>platform_card_close = str ''\<newline>                </div>''\<close>

fun platform_loop :: "world \<Rightarrow> str \<Rightarrow> str list \<Rightarrow> str" where
  "platform_loop w section [] = section"
| "platform_loop w section (filepath # files) =
     (let filename = basename filepath;
          filesize = get_file_size w filepath;
          arch_info = get_arch_info filename
      in platform_loop w (section @ download_entry filename arch_info filesize) files)"

definition generate_platform_section :: "world \<Rightarrow> str \<Rightarrow> str \<Rightarrow> str \<Rightarrow> str" where
  "generate_platform_section w platform_name platform_icon file_pattern =
     (let files = glob w file_pattern;
          files = filter (\<lambda>f. \<not> endswith f (str ''.sha256'') \<and> isfile w f) files
      in if files = [] then []
         else platform_loop w (platform_card_open platform_name platform_icon) files
              @ platform_card_close)"

subsection \<open>\<open>generate_checksums_section\<close>\<close>

definition checksum_item :: "str \<Rightarrow> str \<Rightarrow> str" where
  \<open>checksum_item binary_name checksum =
     str ''\<newline>                <div class="checksum-item">\<newline>                    <div class="checksum-filename">''
     @ binary_name @ str ''</div>\<newline>                    <div class="checksum-hash">''
     @ checksum @ str ''</div>\<newline>                </div>''\<close>

text \<open>\<open>f.read().strip().split()[0]\<close> inside the \<open>try\<close>.\<close>

definition read_checksum :: "world \<Rightarrow> str \<Rightarrow> pyerror + str" where
  "read_checksum w sha_file =
     (case read_text w LocaleDefault sha_file of
        Inl err \<Rightarrow> Inl err
      | Inr text \<Rightarrow>
          (case str_split (str_strip text) of
             [] \<Rightarrow> Inl IndexError
           | checksum # rest \<Rightarrow> Inr checksum))"

fun checksums_loop :: "world \<Rightarrow> str \<Rightarrow> str list \<Rightarrow> str" where
  "checksums_loop w checksums [] = checksums"
| "checksums_loop w checksums (sha_file # sha_files) =
     (let binary_name = str_replace (str ''.sha256'') [] sha_file
      in if isfile w binary_name then
           (case read_checksum w sha_file of
              Inl err \<Rightarrow> checksums_loop w checksums sha_files
            | Inr checksum \<Rightarrow>
                checksums_loop w (checksums @ checksum_item binary_name checksum) sha_files)
         else checksums_loop w checksums sha_files)"

definition generate_checksums_section :: "world \<Rightarrow> str" where
  "generate_checksums_section w =
     (let sha_files = glob w (str ''*.sha256'')
      in if sha_files = [] then [] else checksums_loop w [] sha_files)"

subsection \<open>\<open>copy_installation_scripts\<close>\<close>

definition scripts :: "(str \<times> str) list" where
  "scripts =
     [(str ''install.sh'', str ''Unix/Linux/macOS installation script''),
      (str ''install.ps1'', str ''Windows PowerShell installation script''),
      (str ''install.bat'', str ''Windows Batch installation script'')]"

fun copy_loop :: "world \<Rightarrow> (str \<times> str) list \<Rightarrow> effect list \<times> pyerror option" where
  "copy_loop w [] = ([], None)"
| "copy_loop w ((script_name, description) # rest) =
     (let src_path = script_path w script_name
      in if path_exists w src_path then
           and_then (py_copy2 w src_path script_name)
             (and_then
                (py_print w ([9989] @ str '' Copied '' @ script_name @ str '' (''
                             @ description @ str '')''))
                (copy_loop w rest))
         else
           and_then
             (py_print w ([9888, 65039] @ str '' Warning: '' @ script_name
                          @ str '' not found at '' @ src_path))
             (copy_loop w rest))"

definition copy_installation_scripts :: "world \<Rightarrow> effect list \<times> pyerror option" where
  "copy_installation_scripts w = copy_loop w scripts"

subsection \<open>\<open>main\<close>\<close>

text \<open>The four replacements of \<open>main\<close>, in the order of the source.\<close>

definition replace_placeholders :: "str \<Rightarrow> str \<Rightarrow> str \<Rightarrow> str \<Rightarrow> str \<Rightarrow> str" where
  "replace_placeholders content tag_name release_name download_sections checksums =
     (let content = str_replace (str ''{{TAG_NAME}}'') tag_name content;
          content = str_replace (str ''{{RELEASE_NAME}}'') release_name content;
          content = str_replace (str ''{{DOWNLOAD_SECTIONS}}'') download_sections content;
          content = str_replace (str ''{{CHECKSUMS}}'') checksums content
      in content)"

text \<open>
  The middle of \<open>main\<close>, from the platform sections to the last replacement: the page
  made from the template's content.
\<close>

definition download_page :: "world \<Rightarrow> str \<Rightarrow> str \<Rightarrow> str \<Rightarrow> str" where
  "download_page w content tag_name release_name =
     (let linux_section =
            generate_platform_section w (str ''Linux'') [128039] (str ''amo_linux_*'');
          macos_section =
            generate_platform_section w (str ''macOS'') [127822] (str ''amo_darwin_*'');
          windows_section =
            generate_platform_section w (str ''Windows'') [129695] (str ''amo_windows_*.exe'');
          download_sections = linux_section @ macos_section @ windows_section;
          checksums = generate_checksums_section w
      in replace_placeholders content tag_name release_name download_sections checksums)"

text \<open>\<open>argv\<close> is \<open>sys.argv\<close>: the script's name and the positional arguments.\<close>

definition main :: "world \<Rightarrow> str list \<Rightarrow> effect list \<times> outcome" where
  "main w argv =
     (if length argv \<noteq> 4 then
        before_end
          (py_print w
             (str ''Usage: generate-download-page.py <template_file> <tag_name> <release_name>''))
          ([], Exit 1)
      else
        let template_file = argv ! 1;
            tag_name = argv ! 2;
            release_name = argv ! 3
        in case read_text w LocaleDefault template_file of
             Inl err \<Rightarrow>
               (if err = FileNotFoundError
                then before_end
                       (py_print w
                          (str ''Error: Template file '' @ template_file @ str '' not found''))
                       ([], Exit 1)
                else ([], Uncaught err))
           | Inr content \<Rightarrow>
               (let content = download_page w content tag_name release_name
                in before_end (py_write w LocaleDefault (str ''index.html'') content)
                     (before_end
                        (py_print w ([9989] @ str '' Generated index.html successfully''))
                        (before_end (copy_installation_scripts w) ([], Exit 0)))))"

section \<open>The Chinese generator\<close>

text \<open>
  \<open>generate-download-page-zh.py\<close> has its own copy of every function. The HTML
  fragments are the same text as in the default script and are shared here.
\<close>

definition get_file_size_zh :: "world \<Rightarrow> str \<Rightarrow> str" where
  "get_file_size_zh w filepath =
     (case getsize w filepath of
        Inl err \<Rightarrow> [26410, 30693]
      | Inr n \<Rightarrow> (case human_size n of Inl err \<Rightarrow> [26410, 30693] | Inr s \<Rightarrow> s))"

definition get_arch_info_zh :: "str \<Rightarrow> str" where
  "get_arch_info_zh filename =
     (if str_contains (str ''amd64'') filename then
        (if str_contains (str ''linux'') filename then str ''64'' @ [20301]
         else if str_contains (str ''darwin'') filename then str ''Intel''
         else if str_contains (str ''windows'') filename then str ''64'' @ [20301]
         else [26410, 30693])
      else if str_contains (str ''arm64'') filename then
        (if str_contains (str ''linux'') filename then str ''ARM64''
         else if str_contains (str ''darwin'') filename then str ''Apple Silicon''
         else [26410, 30693])
      else if str_contains (str ''armv7'') filename then str ''ARMv7''
      else [26410, 30693])"

fun platform_loop_zh :: "world \<Rightarrow> str \<Rightarrow> str list \<Rightarrow> str" where
  "platform_loop_zh w section [] = section"
| "platform_loop_zh w section (filepath # files) =
     (let filename = basename filepath;
          filesize = get_file_size_zh w filepath;
          arch_info = get_arch_info_zh filename
      in platform_loop_zh w (section @ download_entry filename arch_info filesize) files)"

definition generate_platform_section_zh :: "world \<Rightarrow> str \<Rightarrow> str \<Rightarrow> str \<Rightarrow> str" where
  "generate_platform_section_zh w platform_name platform_icon file_pattern =
     (let files = glob w file_pattern;
          files = filter (\<lambda>f. \<not> endswith f (str ''.sha256'') \<and> isfile w f) files
      in if files = [] then []
         else platform_loop_zh w (platform_card_open platform_name platform_icon) files
              @ platform_card_close)"

fun checksums_loop_zh :: "world \<Rightarrow> str \<Rightarrow> str list \<Rightarrow> str" where
  "checksums_loop_zh w checksums [] = checksums"
| "checksums_loop_zh w checksums (sha_file # sha_files) =
     (let binary_name = str_replace (str ''.sha256'') [] sha_file
      in if isfile w binary_name then
           (case read_checksum w sha_file of
              Inl err \<Rightarrow> checksums_loop_zh w checksums sha_files
            | Inr checksum \<Rightarrow>
                checksums_loop_zh w (checksums @ checksum_item binary_name checksum) sha_files)
         else checksums_loop_zh w checksums sha_files)"

definition generate_checksums_section_zh :: "world \<Rightarrow> str" where
  "generate_checksums_section_zh w =
     (let sha_files = glob w (str ''*.sha256'')
      in if sha_files = [] then [] else checksums_loop_zh w [] sha_files)"

definition scripts_zh :: "(str \<times> str) list" where
  "scripts_zh =
     [(str ''install.sh'', str ''Unix/Linux/macOS '' @ [23433, 35013, 33050, 26412]),
      (str ''install.ps1'', str ''Windows PowerShell '' @ [23433, 35013, 33050, 26412]),
      (str ''install.bat'',
       str ''Windows '' @ [25209, 22788, 29702, 23433, 35013, 33050, 26412])]"

fun copy_loop_zh :: "world \<Rightarrow> (str \<times> str) list \<Rightarrow> effect list \<times> pyerror option" where
  "copy_loop_zh w [] = ([], None)"
| "copy_loop_zh w ((script_name, description) # rest) =
     (let src_path = script_path w script_name
      in if path_exists w src_path then
           and_then (py_copy2 w src_path script_name)
             (and_then
                (py_print w ([9989] @ str '' '' @ [24050, 22797, 21046] @ str '' ''
                             @ script_name @ str '' ('' @ description @ str '')''))
                (copy_loop_zh w rest))
         else
           and_then
             (py_print w ([9888, 65039] @ str '' '' @ [35686, 21578] @ str '': '' @ [22312]
                          @ str '' '' @ src_path @ str '' '' @ [26410, 25214, 21040]
                          @ str '' '' @ script_name))
             (copy_loop_zh w rest))"

definition copy_installation_scripts_zh :: "world \<Rightarrow> effect list \<times> pyerror option" where
  "copy_installation_scripts_zh w = copy_loop_zh w scripts_zh"

definition download_page_zh :: "world \<Rightarrow> str \<Rightarrow> str \<Rightarrow> str \<Rightarrow> str" where
  "download_page_zh w content tag_name release_name =
     (let linux_section =
            generate_platform_section_zh w (str ''Linux'') [128039] (str ''amo_linux_*'');
          macos_section =
            generate_platform_section_zh w (str ''macOS'') [127822] (str ''amo_darwin_*'');
          windows_section =
            generate_platform_section_zh w (str ''Windows'') [129695] (str ''amo_windows_*.exe'');
          download_sections = linux_section @ macos_section @ windows_section;
          checksums = generate_checksums_section_zh w
      in replace_placeholders content tag_name release_name download_sections checksums)"

definition main_zh :: "world \<Rightarrow> str list \<Rightarrow> effect list \<times> outcome" where
  "main_zh w argv =
     (if length argv \<noteq> 4 then
        before_end
          (py_print w
             ([29992, 27861] @ str '': generate-download-page-zh.py <''
              @ [27169, 26495, 25991, 20214] @ str ''> <'' @ [26631, 31614, 21517]
              @ str ''> <'' @ [21457, 24067, 21517] @ str ''>''))
          ([], Exit 1)
      else
        let template_file = argv ! 1;
            tag_name = argv ! 2;
            release_name = argv ! 3
        in case read_text w UTF8 template_file of
             Inl err \<Rightarrow>
               (if err = FileNotFoundError
                then before_end
                       (py_print w
                          ([38169, 35823] @ str '': '' @ [27169, 26495, 25991, 20214]
                           @ str '' '' @ template_file @ str '' '' @ [26410, 25214, 21040]))
                       ([], Exit 1)
                else ([], Uncaught err))
           | Inr content \<Rightarrow>
               (let content = download_page_zh w content tag_name release_name;
                    zh_dir = str ''zh'';
                    output_file = zh_dir @ str ''/'' @ str ''index.html''
                in before_end (py_mkdir w zh_dir)
                     (before_end (py_write w UTF8 output_file content)
                        (before_end
                           (py_print w ([9989] @ str '' '' @ [25104, 21151, 29983, 25104]
                                        @ str '' '' @ output_file))
                           (before_end (copy_installation_scripts_zh w) ([], Exit 0))))))"

section \<open>Notions of the specification\<close>

subsection \<open>Units of a formatted size\<close>

text \<open>
  The unit the specification asks for: the first of B, KB, MB, GB at which the byte count,
  divided by 1024 once per step, is below 1024, and TB when there is none.
\<close>

definition unit_index :: "nat \<Rightarrow> nat" where
  "unit_index n =
     (if n < 1024 then 0 else if n < 1024 ^ 2 then 1 else if n < 1024 ^ 3 then 2
      else if n < 1024 ^ 4 then 3 else 4)"

definition unit_name :: "nat \<Rightarrow> str" where
  "unit_name k = [str ''B'', str ''KB'', str ''MB'', str ''GB'', str ''TB''] ! k"

text \<open>The number shown, in tenths: \<open>n / 1024 ^ k\<close> rounded to one decimal place.\<close>

definition shown_tenths :: "nat \<Rightarrow> nat \<Rightarrow> nat" where
  "shown_tenths n k = round_half_even (10 * n) (1024 ^ k)"

subsection \<open>Placeholders of a template\<close>

datatype placeholder = TAG_NAME | RELEASE_NAME | DOWNLOAD_SECTIONS | CHECKSUMS

fun token :: "placeholder \<Rightarrow> str" where
  "token TAG_NAME = str ''{{TAG_NAME}}''"
| "token RELEASE_NAME = str ''{{RELEASE_NAME}}''"
| "token DOWNLOAD_SECTIONS = str ''{{DOWNLOAD_SECTIONS}}''"
| "token CHECKSUMS = str ''{{CHECKSUMS}}''"

definition placeholders :: "placeholder list" where
  "placeholders = [TAG_NAME, RELEASE_NAME, DOWNLOAD_SECTIONS, CHECKSUMS]"

definition has_placeholder :: "str \<Rightarrow> bool" where
  "has_placeholder s = list_ex (\<lambda>p. str_contains (token p) s) placeholders"

text \<open>How often a token occurs in a string.\<close>

fun occurrences :: "str \<Rightarrow> str \<Rightarrow> nat" where
  "occurrences tok [] = 0"
| "occurrences tok (c # cs) = (if prefix tok (c # cs) then 1 else 0) + occurrences tok cs"

text \<open>
  The template with its placeholder tokens deleted and every other character kept: one
  pass from left to right, \<open>k\<close> counting the characters of a token still to be passed
  over.
\<close>

fun delete_scan :: "nat \<Rightarrow> str \<Rightarrow> str" where
  "delete_scan k [] = []"
| "delete_scan k (c # cs) =
     (if 0 < k then delete_scan (k - 1) cs
      else (case find (\<lambda>p. prefix (token p) (c # cs)) placeholders of
              Some p \<Rightarrow> delete_scan (length (token p) - 1) cs
            | None \<Rightarrow> c # delete_scan 0 cs))"

definition delete_tokens :: "str \<Rightarrow> str" where
  "delete_tokens s = delete_scan 0 s"

text \<open>A template seen as a sequence of characters and placeholders.\<close>

datatype segment = Chr nat | Slot placeholder

fun template_text :: "segment list \<Rightarrow> str" where
  "template_text [] = []"
| "template_text (Chr c # segs) = c # template_text segs"
| "template_text (Slot p # segs) = token p @ template_text segs"

fun plain_text :: "segment list \<Rightarrow> str" where
  "plain_text [] = []"
| "plain_text (Chr c # segs) = c # plain_text segs"
| "plain_text (Slot p # segs) = plain_text segs"

subsection \<open>Checksum records\<close>

text \<open>The first whitespace-delimited token of a text, and the first line of a text.\<close>

definition first_token :: "str \<Rightarrow> str option" where
  "first_token s =
     (case dropWhile is_space s of
        [] \<Rightarrow> None
      | c # cs \<Rightarrow> Some (c # takeWhile (\<lambda>x. \<not> is_space x) cs))"

definition first_line :: "str \<Rightarrow> str" where
  "first_line s = takeWhile (\<lambda>c. c \<noteq> 10) s"

text \<open>The artifact name the specification derives: the name without its last seven characters.\<close>

definition strip_sha256_suffix :: "str \<Rightarrow> str" where
  "strip_sha256_suffix sha_file = take (length sha_file - 7) sha_file"

text \<open>What one checksum file adds to the checksum section.\<close>

definition checksum_entry :: "world \<Rightarrow> str \<Rightarrow> str" where
  "checksum_entry w sha_file =
     (let binary_name = str_replace (str ''.sha256'') [] sha_file
      in if isfile w binary_name then
           (case read_text w LocaleDefault sha_file of
              Inl err \<Rightarrow> []
            | Inr text \<Rightarrow>
                (case first_token text of
                   None \<Rightarrow> []
                 | Some checksum \<Rightarrow> checksum_item binary_name checksum))
         else [])"

subsection \<open>One generator for both locales\<close>

text \<open>
  The design notes of the specification ask for a single generator, parameterised by what
  the two scripts differ in. \<open>variant\<close> lists these parameters: the microcopy, the
  directory of the output, and the encoding given to \<open>open\<close>.
\<close>

record variant =
  lc_unknown :: str
  lc_64bit :: str
  lc_usage :: str
  lc_not_found :: "str \<Rightarrow> str"
  lc_generated :: "str \<Rightarrow> str"
  lc_copied :: "str \<Rightarrow> str \<Rightarrow> str"
  lc_missing :: "str \<Rightarrow> str \<Rightarrow> str"
  lc_scripts :: "(str \<times> str) list"
  lc_subdir :: "str option"
  lc_encoding :: encoding

definition unified_size :: "variant \<Rightarrow> world \<Rightarrow> str \<Rightarrow> str" where
  "unified_size lc w filepath =
     (case getsize w filepath of
        Inl err \<Rightarrow> lc_unknown lc
      | Inr n \<Rightarrow> (case human_size n of Inl err \<Rightarrow> lc_unknown lc | Inr s \<Rightarrow> s))"

definition unified_arch :: "variant \<Rightarrow> str \<Rightarrow> str" where
  "unified_arch lc filename =
     (let has = (\<lambda>sub. str_contains (str sub) filename)
      in if has ''amd64'' then
           (if has ''linux'' \<or> (\<not> has ''darwin'' \<and> has ''windows'') then lc_64bit lc
            else if has ''darwin'' then str ''Intel''
            else lc_unknown lc)
         else if has ''arm64'' then
           (if has ''linux'' then str ''ARM64''
            else if has ''darwin'' then str ''Apple Silicon''
            else lc_unknown lc)
         else if has ''armv7'' then str ''ARMv7''
         else lc_unknown lc)"

definition unified_platform_section :: "variant \<Rightarrow> world \<Rightarrow> str \<Rightarrow> str \<Rightarrow> str \<Rightarrow> str" where
  "unified_platform_section lc w platform_name platform_icon file_pattern =
     (let files = filter (\<lambda>f. \<not> endswith f (str ''.sha256'') \<and> isfile w f) (glob w file_pattern)
      in if files = [] then []
         else platform_card_open platform_name platform_icon
              @ concat (map (\<lambda>f. download_entry (basename f) (unified_arch lc (basename f))
                                     (unified_size lc w f)) files)
              @ platform_card_close)"

definition unified_checksums_section :: "world \<Rightarrow> str" where
  "unified_checksums_section w = concat (map (checksum_entry w) (glob w (str ''*.sha256'')))"

definition unified_page :: "variant \<Rightarrow> world \<Rightarrow> str \<Rightarrow> str \<Rightarrow> str \<Rightarrow> str" where
  "unified_page lc w content tag_name release_name =
     replace_placeholders content tag_name release_name
       (unified_platform_section lc w (str ''Linux'') [128039] (str ''amo_linux_*'')
        @ unified_platform_section lc w (str ''macOS'') [127822] (str ''amo_darwin_*'')
        @ unified_platform_section lc w (str ''Windows'') [129695] (str ''amo_windows_*.exe''))
       (unified_checksums_section w)"

definition unified_script :: "variant \<Rightarrow> world \<Rightarrow> str \<times> str \<Rightarrow> effect list \<times> pyerror option"
where
  "unified_script lc w script =
     (if path_exists w (script_path w (fst script)) then
        and_then (py_copy2 w (script_path w (fst script)) (fst script))
          (py_print w (lc_copied lc (fst script) (snd script)))
      else py_print w (lc_missing lc (fst script) (script_path w (fst script))))"

definition unified_scripts :: "variant \<Rightarrow> world \<Rightarrow> (str \<times> str) list \<Rightarrow> effect list \<times> pyerror option"
where
  "unified_scripts lc w xs = foldr (\<lambda>script rest. and_then (unified_script lc w script) rest) xs ([], None)"

definition output_path :: "variant \<Rightarrow> str" where
  "output_path lc =
     (case lc_subdir lc of None \<Rightarrow> str ''index.html'' | Some d \<Rightarrow> d @ str ''/index.html'')"

definition unified_output :: "variant \<Rightarrow> world \<Rightarrow> str \<Rightarrow> effect list \<times> pyerror option" where
  "unified_output lc w page =
     and_then (case lc_subdir lc of None \<Rightarrow> ([], None) | Some d \<Rightarrow> py_mkdir w d)
       (and_then (py_write w (lc_encoding lc) (output_path lc) page)
          (and_then (py_print w (lc_generated lc (output_path lc)))
             (unified_scripts lc w (lc_scripts lc))))"

definition unified_main :: "variant \<Rightarrow> world \<Rightarrow> str list \<Rightarrow> effect list \<times> outcome" where
  "unified_main lc w argv =
     (if length argv \<noteq> 4 then before_end (py_print w (lc_usage lc)) ([], Exit 1)
      else (case read_text w (lc_encoding lc) (argv ! 1) of
              Inl err \<Rightarrow>
                (if err = FileNotFoundError
                 then before_end (py_print w (lc_not_found lc (argv ! 1))) ([], Exit 1)
                 else ([], Uncaught err))
            | Inr content \<Rightarrow>
                before_end (unified_output lc w (unified_page lc w content (argv ! 2) (argv ! 3)))
                  ([], Exit 0)))"

definition default_variant :: variant where
  "default_variant =
     \<lparr>lc_unknown = str ''Unknown'',
      lc_64bit = str ''64-bit'',
      lc_usage = str ''Usage: generate-download-page.py <template_file> <tag_name> <release_name>'',
      lc_not_found = (\<lambda>f. str ''Error: Template file '' @ f @ str '' not found''),
      lc_generated = (\<lambda>out. [9989] @ str '' Generated index.html successfully''),
      lc_copied = (\<lambda>n d. [9989] @ str '' Copied '' @ n @ str '' ('' @ d @ str '')''),
      lc_missing = (\<lambda>n src. [9888, 65039] @ str '' Warning: '' @ n @ str '' not found at '' @ src),
      lc_scripts = scripts,
      lc_subdir = None,
      lc_encoding = LocaleDefault\<rparr>"

definition zh_variant :: variant where
  "zh_variant =
     \<lparr>lc_unknown = [26410, 30693],
      lc_64bit = str ''64'' @ [20301],
      lc_usage = [29992, 27861] @ str '': generate-download-page-zh.py <''
                 @ [27169, 26495, 25991, 20214] @ str ''> <'' @ [26631, 31614, 21517]
                 @ str ''> <'' @ [21457, 24067, 21517] @ str ''>'',
      lc_not_found = (\<lambda>f. [38169, 35823] @ str '': '' @ [27169, 26495, 25991, 20214]
                             @ str '' '' @ f @ str '' '' @ [26410, 25214, 21040]),
      lc_generated = (\<lambda>out. [9989] @ str '' '' @ [25104, 21151, 29983, 25104] @ str '' '' @ out),
      lc_copied = (\<lambda>n d. [9989] @ str '' '' @ [24050, 22797, 21046] @ str '' '' @ n
                           @ str '' ('' @ d @ str '')''),
      lc_missing = (\<lambda>n src. [9888, 65039] @ str '' '' @ [35686, 21578] @ str '': '' @ [22312]
                              @ str '' '' @ src @ str '' '' @ [26410, 25214, 21040]
                              @ str '' '' @ n),
      lc_scripts = scripts_zh,
      lc_subdir = Some (str ''zh''),
      lc_encoding = UTF8\<rparr>"

section \<open>Working directories used as examples\<close>

text \<open>
  The end-to-end scenario of the specification: \<open>amo_linux_amd64\<close> of 10 bytes, its
  checksum file, and a template; only \<open>install.sh\<close> lies beside the script.
\<close>

definition scenario :: world where
  "scenario =
     \<lparr>listdir = [str ''amo_linux_amd64'', str ''amo_linux_amd64.sha256''],
      isfile = (\<lambda>p. p = str ''amo_linux_amd64'' \<or> p = str ''amo_linux_amd64.sha256''
                     \<or> p = str ''template.html''),
      getsize = (\<lambda>p. if p = str ''amo_linux_amd64'' then Inr 10
                      else if p = str ''amo_linux_amd64.sha256'' then Inr 24
                      else Inl FileNotFoundError),
      read_text = (\<lambda>enc p.
         if p = str ''template.html''
         then Inr (str ''<h1>{{RELEASE_NAME}} {{TAG_NAME}}</h1>{{DOWNLOAD_SECTIONS}}{{CHECKSUMS}}'')
         else if p = str ''amo_linux_amd64.sha256'' then Inr (str ''abcd1234 amo_linux_amd64'')
         else Inl FileNotFoundError),
      write_text = (\<lambda>enc p s. None),
      mkdir = (\<lambda>p. None),
      script_path = (\<lambda>n. str ''.github/scripts/'' @ n),
      path_exists = (\<lambda>p. p = str ''.github/scripts/install.sh''),
      copy2 = (\<lambda>src dst. None),
      print_text = (\<lambda>s. None),
      glob_other = (\<lambda>pattern. [])\<rparr>"

definition scenario_argv :: "str list" where
  "scenario_argv =
     [str ''generate-download-page.py'', str ''template.html'', str ''v1.0'', str ''First Release'']"

text \<open>The scenario with a checksum file whose first line is blank.\<close>

definition blank_line_world :: world where
  "blank_line_world =
     scenario\<lparr>read_text := (\<lambda>enc p.
        if p = str ''amo_linux_amd64.sha256''
        then Inr (str ''\<newline>abcd1234  amo_linux_amd64\<newline>'')
        else read_text scenario enc p)\<rparr>"

text \<open>
  A directory with \<open>app\<close> and \<open>app.sha256.sha256\<close>, the checksum of a checksum file
  that is itself gone.
\<close>

definition double_suffix_world :: world where
  "double_suffix_world =
     scenario\<lparr>listdir := [str ''app'', str ''app.sha256.sha256''],
       isfile := (\<lambda>p. p = str ''app'' \<or> p = str ''app.sha256.sha256''),
       read_text := (\<lambda>enc p.
         if p = str ''app.sha256.sha256'' then Inr (str ''beef0000  app.sha256'')
         else Inl FileNotFoundError)\<rparr>"

text \<open>The scenario with a template that exists and may not be read.\<close>

definition unreadable_world :: world where
  "unreadable_world =
     scenario\<lparr>read_text := (\<lambda>enc p.
        if p = str ''template.html'' then Inl PermissionError else read_text scenario enc p)\<rparr>"

text \<open>
  The scenario on a platform whose default encoding is ASCII, for files and for standard
  output: text with a character beyond 127 can be read and written as UTF-8 only, and
  cannot be printed.
\<close>

definition is_ascii :: "str \<Rightarrow> bool" where
  "is_ascii s = list_all (\<lambda>c. c < 128) s"

definition ascii_platform_world :: world where
  "ascii_platform_world =
     scenario\<lparr>read_text := (\<lambda>enc p.
         case read_text scenario UTF8 p of
           Inl err \<Rightarrow> Inl err
         | Inr s \<Rightarrow> if enc = LocaleDefault \<and> \<not> is_ascii s then Inl UnicodeError else Inr s),
       write_text := (\<lambda>enc p s.
         if enc = LocaleDefault \<and> \<not> is_ascii s then Some UnicodeError else None),
       print_text := (\<lambda>s. if is_ascii s then None else Some UnicodeError)\<rparr>"

text \<open>The scenario with a standard output that takes ASCII only.\<close>

definition ascii_stdout_world :: world where
  "ascii_stdout_world =
     scenario\<lparr>print_text := (\<lambda>s. if is_ascii s then None else Some UnicodeError)\<rparr>"

text \<open>
  The scenario with two more checksum files, one that may not be read and one that holds
  white space only, each beside its artifact.
\<close>

definition partial_failure_world :: world where
  "partial_failure_world =
     scenario\<lparr>listdir := [str ''locked'', str ''locked.sha256'', str ''blank'',
                  str ''blank.sha256'', str ''amo_linux_amd64'', str ''amo_linux_amd64.sha256''],
       isfile := (\<lambda>p. True),
       read_text := (\<lambda>enc p.
         if p = str ''locked.sha256'' then Inl PermissionError
         else if p = str ''blank.sha256'' then Inr (str '' \<newline>'')
         else read_text scenario enc p)\<rparr>"

text \<open>The scenario in a directory where \<open>zh\<close> is a regular file.\<close>

definition zh_file_world :: world where
  "zh_file_world = scenario\<lparr>mkdir := (\<lambda>p. Some FileExistsError)\<rparr>"

declare nat_digits.simps [simp del]
declare bit_length.simps [simp del]
declare str_split.simps [simp del]

section \<open>File sizes\<close>

lemma float_of_int_small: "n < 2 ^ 53 \<Longrightarrow> float_of_int n = Inr n"
  by (simp add: float_of_int_def)

lemma bit_length_bounds: "0 < n \<Longrightarrow> 2 ^ (bit_length n - 1) \<le> n \<and> n < 2 ^ bit_length n"
proof (induction n rule: bit_length.induct)
  case (1 n)
  show ?case
  proof (cases "n div 2 = 0")
    case True
    with 1 have "n = 1" by (simp add: div_eq_0_iff) 
    then show ?thesis by (simp add: bit_length.simps)
  next
    case False
    then have pos: "0 < n div 2" by simp
    from 1 pos have ih: "2 ^ (bit_length (n div 2) - 1) \<le> n div 2 \<and> n div 2 < 2 ^ bit_length (n div 2)"
      by simp
    have bl: "bit_length n = Suc (bit_length (n div 2))"
      using 1(2) by (simp add: bit_length.simps [of n])
    have blpos: "0 < bit_length (n div 2)"
      using pos by (simp add: bit_length.simps [of "n div 2"])
    then obtain k where k: "bit_length (n div 2) = Suc k" by (cases "bit_length (n div 2)") auto
    from ih k have "2 * 2 ^ k \<le> n" "n < 2 * 2 ^ Suc k" by auto
    then show ?thesis by (simp add: bl k)
  qed
qed

lemma leading_bits:
  assumes "2 ^ Suc p \<le> n"
  shows "2 ^ p \<le> n div 2 ^ (bit_length n - Suc p)"
proof -
  have npos: "0 < n" using assms by (cases n) auto
  from bit_length_bounds [OF npos]
  have lo: "2 ^ (bit_length n - 1) \<le> n" and hi: "n < 2 ^ bit_length n" by auto
  have "(2::nat) ^ Suc p < 2 ^ bit_length n" using assms hi by (rule le_less_trans)
  then have bl: "Suc p < bit_length n"
    using power_less_imp_less_exp [of "2::nat" "Suc p" "bit_length n"] by simp
  then have eq: "bit_length n - 1 = p + (bit_length n - Suc p)" by simp
  have "(2::nat) ^ p * 2 ^ (bit_length n - Suc p) \<le> n"
    using lo unfolding eq by (simp only: power_add)
  then show ?thesis
    by (simp add: less_eq_div_iff_mult_less_eq)
qed

lemma float_of_int_large:
  assumes "2 ^ 53 \<le> n" "float_of_int n = Inr d"
  shows "2 ^ 52 \<le> d"
proof -
  define e where "e = bit_length n - 53"
  define q where "q = n div 2 ^ e"
  have "2 ^ Suc 52 \<le> n" using assms(1) by simp
  from leading_bits [OF this] have q52: "2 ^ 52 \<le> q" by (simp add: q_def e_def)
  have "q \<le> q * 2 ^ e" by simp
  with q52 have qe: "2 ^ 52 \<le> q * 2 ^ e" by (rule le_trans)
  have "d = q * 2 ^ e \<or> d = (q + 1) * 2 ^ e"
    using assms by (auto simp: float_of_int_def Let_def e_def q_def split: if_splits)
  then show ?thesis using qe by (auto simp: algebra_simps)
qed

lemma human_size_small:
  assumes "n < 2 ^ 53"
  shows "human_size n = Inr (fixed_1f n (10 * unit_index n) @ unit_name (unit_index n))"
  using assms
  by (simp add: human_size_def float_of_int_small unit_index_def unit_name_def)

lemma human_size_large:
  assumes "2 ^ 53 \<le> n" "float_of_int n = Inr d"
  shows "human_size n = Inr (fixed_1f d 40 @ str ''TB'')"
proof -
  have "2 ^ 52 \<le> d" using assms by (rule float_of_int_large)
  then show ?thesis using assms
    by (simp add: human_size_def)
qed

lemma human_size_overflow:
  assumes "float_of_int n = Inl err"
  shows "human_size n = Inl err"
proof -
  have "\<not> n < 2 ^ 53" using assms by (auto simp: float_of_int_def)
  then show ?thesis using assms by (simp add: human_size_def)
qed


lemma fixed_1f_shown: "fixed_1f m (10 * k) =
    nat_digits (shown_tenths m k div 10) @ str ''.'' @ nat_digits (shown_tenths m k mod 10)"
proof -
  have "(2::nat) ^ (10 * k) = 1024 ^ k" by (simp add: power_mult)
  then show ?thesis by (simp add: fixed_1f_def shown_tenths_def Let_def)
qed

lemma round_half_even_bound:
  assumes "a < c * b"
  shows "round_half_even a b \<le> c"
proof -
  have "0 < b" using assms by (cases b) auto
  then have "a div b < c" using assms by (simp add: div_less_iff_less_mult)
  then show ?thesis by (simp add: round_half_even_def Let_def)
qed

lemma unit_index_bounds:
  "unit_index n \<le> 4 \<and> (0 < unit_index n \<longrightarrow> 1024 ^ unit_index n \<le> n)
   \<and> (unit_index n < 4 \<longrightarrow> n < 1024 * 1024 ^ unit_index n)"
  by (simp add: unit_index_def)

lemma unit_index_mono: "m \<le> n \<Longrightarrow> unit_index m \<le> unit_index n"
  by (simp add: unit_index_def)

lemma unit_index_scaled:
  assumes "n < 1024 ^ 5"
  shows "n < 1024 * 1024 ^ unit_index n"
  using assms by (simp add: unit_index_def)

lemma unit_index_large: "2 ^ 53 \<le> n \<Longrightarrow> unit_index n = 4"
  by (simp add: unit_index_def)

text \<open>
  C1 (as amended). For a byte count \<open>n\<close> the unit is the first of B, KB, MB, GB at which
  \<open>n\<close>, divided by 1024 once per step, is below 1024, and TB when there is none; the
  result is that quotient rounded to one decimal place, followed by the unit. The unit
  never decreases when \<open>n\<close> grows. Below \<open>1024 ^ 5\<close> bytes the scaled value lies in
  \<open>[0, 1024)\<close> and the number shown is at most 1024.0; from \<open>2 ^ 53\<close> bytes on the number
  shown is that of the double nearest to \<open>n\<close>.
\<close>

theorem human_size_units:
  "(n < 2 ^ 53 \<longrightarrow>
      human_size n =
        Inr (nat_digits (shown_tenths n (unit_index n) div 10) @ str ''.''
             @ nat_digits (shown_tenths n (unit_index n) mod 10) @ unit_name (unit_index n)))
   \<and> (2 ^ 53 \<le> n \<and> float_of_int n = Inr d \<longrightarrow>
      unit_index n = 4 \<and>
      human_size n =
        Inr (nat_digits (shown_tenths d 4 div 10) @ str ''.''
             @ nat_digits (shown_tenths d 4 mod 10) @ str ''TB''))
   \<and> (getsize w p = Inr n \<and> human_size n = Inr s \<longrightarrow> get_file_size w p = s)
   \<and> unit_index n \<le> 4
   \<and> (0 < unit_index n \<longrightarrow> 1024 ^ unit_index n \<le> n)
   \<and> (unit_index n < 4 \<longrightarrow> n < 1024 * 1024 ^ unit_index n)
   \<and> (m \<le> n \<longrightarrow> unit_index m \<le> unit_index n)
   \<and> (n < 1024 ^ 5 \<longrightarrow>
        real n / 1024 ^ unit_index n < 1024 \<and> shown_tenths n (unit_index n) \<le> 10240)"
proof -
  have a: "n < 2 ^ 53 \<longrightarrow>
      human_size n =
        Inr (nat_digits (shown_tenths n (unit_index n) div 10) @ str ''.''
             @ nat_digits (shown_tenths n (unit_index n) mod 10) @ unit_name (unit_index n))"
    using human_size_small [of n] fixed_1f_shown [of n "unit_index n"] by simp
  have b: "2 ^ 53 \<le> n \<and> float_of_int n = Inr d \<longrightarrow>
      unit_index n = 4 \<and>
      human_size n =
        Inr (nat_digits (shown_tenths d 4 div 10) @ str ''.''
             @ nat_digits (shown_tenths d 4 mod 10) @ str ''TB'')"
    using human_size_large [of n d] fixed_1f_shown [of d 4] unit_index_large [of n] by simp
  have c: "getsize w p = Inr n \<and> human_size n = Inr s \<longrightarrow> get_file_size w p = s"
    by (simp add: get_file_size_def)
  have d: "n < 1024 ^ 5 \<longrightarrow>
        real n / 1024 ^ unit_index n < 1024 \<and> shown_tenths n (unit_index n) \<le> 10240"
  proof
    assume "n < 1024 ^ 5"
    then have lt: "n < 1024 * 1024 ^ unit_index n" by (rule unit_index_scaled)
    then have "real n < real (1024 * 1024 ^ unit_index n)" by (simp only: of_nat_less_iff)
    then have "real n / 1024 ^ unit_index n < 1024" by (simp add: divide_less_eq)
    moreover have "10 * n < 10240 * 1024 ^ unit_index n" using lt by simp
    then have "shown_tenths n (unit_index n) \<le> 10240"
      unfolding shown_tenths_def by (rule round_half_even_bound)
    ultimately show "real n / 1024 ^ unit_index n < 1024 \<and> shown_tenths n (unit_index n) \<le> 10240"
      by simp
  qed
  show ?thesis
    using a b c d unit_index_bounds [of n] unit_index_mono [of m n] by blast
qed

lemma bit_length_54: "bit_length 9007199254740993 = 54"
  by (simp add: bit_length.simps)

lemma float_of_int_tie: "float_of_int 9007199254740993 = Inr 9007199254740992"
  by (simp add: float_of_int_def bit_length_54 Let_def)

theorem human_size_units_witness:
  "(1536::nat) < 2 ^ 53 \<and> human_size 1536 = Inr (str ''1.5KB'')
   \<and> unit_index 1536 = 1 \<and> unit_index 10 \<le> unit_index 1536
   \<and> real 1536 / 1024 ^ unit_index 1536 < 1024 \<and> shown_tenths 1536 (unit_index 1536) = 15
   \<and> (2::nat) ^ 53 \<le> 9007199254740993
   \<and> float_of_int 9007199254740993 = Inr 9007199254740992
   \<and> human_size 9007199254740993 = Inr (str ''8192.0TB'')"
proof -
  have u: "unit_index 1536 = 1" "unit_index 10 = 0" by (simp_all add: unit_index_def)
  have t: "shown_tenths 1536 (Suc 0) = 15" by (simp add: shown_tenths_def round_half_even_def)
  have n: "nat_digits (Suc 0) = str ''1''" "nat_digits 5 = str ''5''"
    by (simp_all add: nat_digits.simps str_def)
  have t2: "shown_tenths 9007199254740992 4 = 81920"
    by (simp add: shown_tenths_def round_half_even_def)
  have n2: "nat_digits 8192 = str ''8192''" "nat_digits 0 = str ''0''"
    by (simp_all add: nat_digits.simps str_def)
  have small: "human_size 1536 = Inr (str ''1.5KB'')"
    using human_size_units [where n = 1536]
    by (simp add: u t n unit_name_def str_def)
  have large: "human_size 9007199254740993 = Inr (str ''8192.0TB'')"
    using human_size_units [where n = 9007199254740993 and d = 9007199254740992]
    by (simp add: float_of_int_tie t2 n2 str_def)
  show ?thesis
    by (simp add: small large u t float_of_int_tie)
qed

text \<open>
  The claim as written fails: one pebibyte is shown as "1024.0TB", and \<open>1048575\<close> bytes,
  whose scaled value is below 1024, are shown as "1024.0KB".
\<close>

theorem human_size_1024_counterexample:
  "human_size (1024 ^ 5) = Inr (str ''1024.0TB'')
   \<and> \<not> real (1024 ^ 5) / 1024 ^ 4 < 1024
   \<and> human_size 1048575 = Inr (str ''1024.0KB'')"
  by (simp add: human_size_def float_of_int_def fixed_1f_def round_half_even_def
      nat_digits.simps str_def)

section \<open>Architecture labels\<close>

text \<open>
  C2 (as amended). The label of a file name follows the nested tests of \<open>get_arch_info\<close>:
  \<open>amd64\<close> with \<open>linux\<close> gives "64-bit"; \<open>amd64\<close> with \<open>darwin\<close> gives "Intel" when
  \<open>linux\<close> is absent; \<open>arm64\<close> with \<open>darwin\<close> gives "Apple Silicon" when neither \<open>amd64\<close>
  nor \<open>linux\<close> occurs; \<open>armv7\<close> gives "ARMv7", whatever the platform substring, when
  neither \<open>amd64\<close> nor \<open>arm64\<close> occurs; a name with none of the three architecture
  substrings gives "Unknown".
\<close>

theorem get_arch_info_rules:
  "(str_contains (str ''amd64'') f \<and> str_contains (str ''linux'') f
      \<longrightarrow> get_arch_info f = str ''64-bit'')
   \<and> (str_contains (str ''amd64'') f \<and> str_contains (str ''darwin'') f
        \<and> \<not> str_contains (str ''linux'') f
      \<longrightarrow> get_arch_info f = str ''Intel'')
   \<and> (str_contains (str ''arm64'') f \<and> str_contains (str ''darwin'') f
        \<and> \<not> str_contains (str ''amd64'') f \<and> \<not> str_contains (str ''linux'') f
      \<longrightarrow> get_arch_info f = str ''Apple Silicon'')
   \<and> (str_contains (str ''armv7'') f
        \<and> \<not> str_contains (str ''amd64'') f \<and> \<not> str_contains (str ''arm64'') f
      \<longrightarrow> get_arch_info f = str ''ARMv7'')
   \<and> (\<not> str_contains (str ''amd64'') f \<and> \<not> str_contains (str ''arm64'') f
        \<and> \<not> str_contains (str ''armv7'') f
      \<longrightarrow> get_arch_info f = str ''Unknown'')"
  by (simp add: get_arch_info_def)

theorem get_arch_info_rules_witness:
  "str_contains (str ''armv7'') (str ''amo_linux_armv7'')
   \<and> \<not> str_contains (str ''amd64'') (str ''amo_linux_armv7'')
   \<and> \<not> str_contains (str ''arm64'') (str ''amo_linux_armv7'')
   \<and> get_arch_info (str ''amo_linux_armv7'') = str ''ARMv7''"
  using get_arch_info_rules [of "str ''amo_linux_armv7''"]
  by (simp add: str_def)

text \<open>
  The claim as written fails: a name with \<open>amd64\<close> and \<open>darwin\<close> that also holds
  \<open>linux\<close> is labelled "64-bit", not "Intel", and a name with \<open>armv7\<close> that also holds
  \<open>amd64\<close> is labelled "Unknown", not "ARMv7".
\<close>

theorem get_arch_info_darwin_counterexample:
  "str_contains (str ''amd64'') (str ''amo_linux_darwin_amd64'')
   \<and> str_contains (str ''darwin'') (str ''amo_linux_darwin_amd64'')
   \<and> get_arch_info (str ''amo_linux_darwin_amd64'') = str ''64-bit''
   \<and> get_arch_info (str ''amo_linux_darwin_amd64'') \<noteq> str ''Intel''
   \<and> str_contains (str ''armv7'') (str ''amo_armv7_amd64'')
   \<and> get_arch_info (str ''amo_armv7_amd64'') = str ''Unknown''
   \<and> get_arch_info (str ''amo_armv7_amd64'') \<noteq> str ''ARMv7''"
  by (simp add: get_arch_info_def str_def)

text \<open>
  C3 (as amended). A name with \<open>amd64\<close> but none of \<open>linux\<close>, \<open>darwin\<close>, \<open>windows\<close>, and a
  name without \<open>amd64\<close> that has \<open>arm64\<close> but neither \<open>linux\<close> nor \<open>darwin\<close>, leaves the
  nested tests and reaches the final \<open>return\<close>: the label is "Unknown". No name gets an
  empty label.
\<close>

theorem get_arch_info_inner_miss:
  "(str_contains (str ''amd64'') f \<and> \<not> str_contains (str ''linux'') f
        \<and> \<not> str_contains (str ''darwin'') f \<and> \<not> str_contains (str ''windows'') f
      \<longrightarrow> get_arch_info f = str ''Unknown'')
   \<and> (\<not> str_contains (str ''amd64'') f \<and> str_contains (str ''arm64'') f
        \<and> \<not> str_contains (str ''linux'') f \<and> \<not> str_contains (str ''darwin'') f
      \<longrightarrow> get_arch_info f = str ''Unknown'')
   \<and> get_arch_info f \<noteq> []"
  by (simp add: get_arch_info_def) (simp add: str_def)

theorem get_arch_info_inner_miss_witness:
  "\<not> str_contains (str ''amd64'') (str ''amo_freebsd_arm64'')
   \<and> str_contains (str ''arm64'') (str ''amo_freebsd_arm64'')
   \<and> \<not> str_contains (str ''linux'') (str ''amo_freebsd_arm64'')
   \<and> \<not> str_contains (str ''darwin'') (str ''amo_freebsd_arm64'')
   \<and> get_arch_info (str ''amo_freebsd_arm64'') = str ''Unknown''"
  using get_arch_info_inner_miss [of "str ''amo_freebsd_arm64''"]
  by (simp add: str_def)

text \<open>
  The claim as written fails: with \<open>amd64\<close> and no platform substring the result is the
  "Unknown" sentinel, not an empty value.
\<close>

theorem get_arch_info_sentinel_counterexample:
  "str_contains (str ''amd64'') (str ''amo_freebsd_amd64'')
   \<and> \<not> str_contains (str ''linux'') (str ''amo_freebsd_amd64'')
   \<and> \<not> str_contains (str ''darwin'') (str ''amo_freebsd_amd64'')
   \<and> \<not> str_contains (str ''windows'') (str ''amo_freebsd_amd64'')
   \<and> get_arch_info (str ''amo_freebsd_amd64'') = str ''Unknown''"
  by (simp add: get_arch_info_def str_def)

section \<open>Template rendering\<close>

subsection \<open>Replacement\<close>

lemma str_contains_Cons: "str_contains sub cs \<Longrightarrow> str_contains sub (c # cs)"
  by simp

lemma str_contains_prefix: "prefix sub s \<Longrightarrow> str_contains sub s"
  by (cases s) simp_all

lemma replace_scan_absent:
  "\<not> str_contains old s \<Longrightarrow> replace_scan old new s = s"
  by (induction s) auto

lemma str_replace_absent:
  "\<not> str_contains old s \<Longrightarrow> str_replace old new s = s"
proof (cases "old = []")
  case True
  assume "\<not> str_contains old s"
  with True show ?thesis by (cases s) simp_all
next
  case False
  assume "\<not> str_contains old s"
  then show ?thesis using False by (simp add: str_replace_def replace_scan_absent)
qed

lemma replace_scan_here:
  "old \<noteq> [] \<Longrightarrow> replace_scan old new (old @ s) = new @ replace_scan old new s"
  by (cases old) simp_all

lemma replace_scan_skip:
  assumes "old = x # old'" "x \<notin> set a"
  shows "replace_scan old new (a @ s) = a @ replace_scan old new s"
  using assms by (induction a) auto

subsection \<open>Shape of the tokens\<close>

lemma token_shape: "\<exists>r y r'. token p = 123 # 123 # r \<and> r = y # r' \<and> 123 \<notin> set r"
  by (cases p) (simp_all add: str_def)

lemma token_not_Nil: "token p \<noteq> []"
  using token_shape [of p] by auto

lemma token_tail_head:
  assumes "0 < i" "i < length (token p)"
  shows "\<exists>x d. drop i (token p) = x # d \<and> (x \<noteq> 123 \<or> (\<exists>y d'. d = y # d' \<and> y \<noteq> 123))"
proof -
  obtain r y r' where sh: "token p = 123 # 123 # r" "r = y # r'" "123 \<notin> set r"
    using token_shape [of p] by blast
  show ?thesis
  proof (cases "i = 1")
    case True
    then have "drop i (token p) = 123 # y # r'" using sh by simp
    moreover have "y \<noteq> 123" using sh by auto
    ultimately show ?thesis by blast
  next
    case False
    with assms obtain j where j: "i = Suc (Suc j)" by (cases i; cases "i - 1") auto
    then have jl: "j < length r" using assms sh by simp
    have "drop i (token p) = drop j r" using j sh by simp
    also have "\<dots> = r ! j # drop (Suc j) r" using jl by (simp add: Cons_nth_drop_Suc)
    finally have "drop i (token p) = r ! j # drop (Suc j) r" .
    moreover have "r ! j \<noteq> 123" using jl sh(3) by (metis nth_mem)
    ultimately show ?thesis by blast
  qed
qed

lemma token_starts: "\<exists>t. token q = 123 # 123 # t"
  using token_shape [of q] by blast

lemma no_token_inside:
  assumes "0 < i" "i < length (token p)"
  shows "\<not> prefix (token q) (drop i (token p) @ w)"
proof
  assume pre: "prefix (token q) (drop i (token p) @ w)"
  obtain t where t: "token q = 123 # 123 # t" using token_starts by blast
  from token_tail_head [OF assms] obtain x d where
    xd: "drop i (token p) = x # d" "x \<noteq> 123 \<or> (\<exists>y d'. d = y # d' \<and> y \<noteq> 123)" by blast
  from pre t xd(1) have x: "x = 123" and pre': "prefix (123 # t) (d @ w)" by auto
  with xd(2) obtain y d' where "d = y # d'" "y \<noteq> 123" by blast
  with pre' show False by auto
qed

lemma token_tail_not_before_token:
  assumes "0 < i" "i < length (token p)"
  shows "\<not> prefix (drop i (token p)) (token q @ w)"
proof
  assume pre: "prefix (drop i (token p)) (token q @ w)"
  obtain t where t: "token q = 123 # 123 # t" using token_starts by blast
  from token_tail_head [OF assms] obtain x d where
    xd: "drop i (token p) = x # d" "x \<noteq> 123 \<or> (\<exists>y d'. d = y # d' \<and> y \<noteq> 123)" by blast
  from pre t xd(1) have x: "x = 123" and pre': "prefix d (123 # t @ w)" by auto
  with xd(2) obtain y d' where "d = y # d'" "y \<noteq> 123" by blast
  with pre' show False by auto
qed

lemma distinct_tokens_not_prefix:
  "p \<noteq> q \<Longrightarrow> \<not> prefix (token p) (token q @ w)"
  by (cases p; cases q) (simp_all add: str_def)


subsection \<open>Templates as segments\<close>

lemma token_tail_in_plain:
  "0 < i \<Longrightarrow> i < length (token p) \<Longrightarrow> prefix (drop i (token p)) (template_text segs)
   \<Longrightarrow> prefix (drop i (token p)) (plain_text segs)"
proof (induction segs arbitrary: i)
  case Nil
  then show ?case by simp
next
  case (Cons seg segs)
  show ?case
  proof (cases seg)
    case (Chr c)
    from Cons.prems(2) have d: "drop i (token p) = token p ! i # drop (Suc i) (token p)"
      by (simp add: Cons_nth_drop_Suc)
    from Cons.prems(3) Chr d have c: "token p ! i = c"
      and pre: "prefix (drop (Suc i) (token p)) (template_text segs)" by auto
    show ?thesis
    proof (cases "Suc i < length (token p)")
      case True
      from Cons.IH [OF _ True pre] have "prefix (drop (Suc i) (token p)) (plain_text segs)" by simp
      then show ?thesis using Chr d c by simp
    next
      case False
      then have "drop (Suc i) (token p) = []" by simp
      then show ?thesis using Chr d c by simp
    qed
  next
    case (Slot q)
    with Cons.prems(3) have "prefix (drop i (token p)) (token q @ template_text segs)" by simp
    with token_tail_not_before_token [OF Cons.prems(1,2)] show ?thesis by blast
  qed
qed

lemma has_placeholder_iff: "has_placeholder s \<longleftrightarrow> (\<exists>p. str_contains (token p) s)"
proof
  assume "has_placeholder s"
  then show "\<exists>p. str_contains (token p) s"
    by (auto simp: has_placeholder_def list_ex_iff)
next
  assume "\<exists>p. str_contains (token p) s"
  then obtain p where p: "str_contains (token p) s" by blast
  have "p \<in> set placeholders" by (cases p) (simp_all add: placeholders_def)
  with p show "has_placeholder s" by (auto simp: has_placeholder_def list_ex_iff)
qed

lemma has_placeholder_Cons: "has_placeholder s \<Longrightarrow> has_placeholder (c # s)"
  by (auto simp: has_placeholder_iff)

lemma no_token_at_char:
  assumes "\<not> has_placeholder (plain_text (Chr c # segs))"
  shows "\<not> prefix (token p) (template_text (Chr c # segs))"
proof
  assume pre: "prefix (token p) (template_text (Chr c # segs))"
  obtain t where t: "token p = 123 # 123 # t" using token_starts by blast
  then have d: "drop 1 (token p) = 123 # t" and l: "1 < length (token p)" by simp_all
  from pre t have c: "c = 123" and pre': "prefix (drop 1 (token p)) (template_text segs)"
    by (auto simp: d)
  from token_tail_in_plain [OF _ l pre'] have "prefix (drop 1 (token p)) (plain_text segs)"
    by simp
  then have "prefix (token p) (plain_text (Chr c # segs))" using t c d by simp
  then have "str_contains (token p) (plain_text (Chr c # segs))" by (rule str_contains_prefix)
  with assms show False by (auto simp: has_placeholder_iff)
qed

lemma replace_scan_over_tail:
  assumes "p \<noteq> q"
  shows "i \<le> length (token q) \<Longrightarrow>
    replace_scan (token p) new (drop i (token q) @ w) = drop i (token q) @ replace_scan (token p) new w"
proof (induction "length (token q) - i" arbitrary: i)
  case 0
  then show ?case by simp
next
  case (Suc k)
  then have il: "i < length (token q)" by simp
  then have d: "drop i (token q) = token q ! i # drop (Suc i) (token q)"
    by (simp add: Cons_nth_drop_Suc)
  have np: "\<not> prefix (token p) (drop i (token q) @ w)"
  proof (cases "i = 0")
    case True
    then show ?thesis using distinct_tokens_not_prefix [OF assms] by simp
  next
    case False
    then show ?thesis using no_token_inside [OF _ il] by simp
  qed
  have ih: "replace_scan (token p) new (drop (Suc i) (token q) @ w)
            = drop (Suc i) (token q) @ replace_scan (token p) new w"
    using Suc.hyps(1) [of "Suc i"] Suc.hyps(2) il by simp
  have "replace_scan (token p) new (drop i (token q) @ w)
        = token q ! i # replace_scan (token p) new (drop (Suc i) (token q) @ w)"
    using np unfolding d by simp
  then show ?case using ih d by simp
qed

lemma replace_scan_over_token:
  "p \<noteq> q \<Longrightarrow> replace_scan (token p) new (token q @ w) = token q @ replace_scan (token p) new w"
  using replace_scan_over_tail [of p q 0 new w] by simp

lemma delete_one_slot:
  "\<not> has_placeholder (plain_text segs) \<Longrightarrow>
   replace_scan (token p) [] (template_text segs)
   = template_text (filter (\<lambda>seg. seg \<noteq> Slot p) segs)"
proof (induction segs)
  case Nil
  then show ?case by simp
next
  case (Cons seg segs)
  show ?case
  proof (cases seg)
    case (Chr c)
    with Cons.prems have np: "\<not> prefix (token p) (c # template_text segs)"
      using no_token_at_char [of c segs p] by simp
    from Cons.prems Chr have "\<not> has_placeholder (plain_text segs)"
      using has_placeholder_Cons by auto
    with Cons.IH have "replace_scan (token p) [] (template_text segs)
       = template_text (filter (\<lambda>seg. seg \<noteq> Slot p) segs)" by simp
    then show ?thesis using Chr np by simp
  next
    case (Slot q)
    with Cons.prems have "\<not> has_placeholder (plain_text segs)" by simp
    with Cons.IH have ih: "replace_scan (token p) [] (template_text segs)
       = template_text (filter (\<lambda>seg. seg \<noteq> Slot p) segs)" by simp
    show ?thesis
    proof (cases "p = q")
      case True
      then show ?thesis using Slot ih replace_scan_here [OF token_not_Nil, of q "[]"] by simp
    next
      case False
      then show ?thesis using Slot ih replace_scan_over_token [OF False] by auto
    qed
  qed
qed

lemma plain_text_filter: "plain_text (filter (\<lambda>seg. seg \<noteq> Slot p) segs) = plain_text segs"
proof (induction segs)
  case Nil
  then show ?case by simp
next
  case (Cons seg segs)
  then show ?case by (cases seg) auto
qed

lemma template_text_no_slot:
  "\<forall>p. Slot p \<notin> set segs \<Longrightarrow> template_text segs = plain_text segs"
proof (induction segs)
  case Nil
  then show ?case by simp
next
  case (Cons seg segs)
  then show ?case by (cases seg) auto
qed

lemma str_replace_token: "str_replace (token p) new s = replace_scan (token p) new s"
  by (simp add: str_replace_def token_not_Nil)

lemma tokens_str:
  "str ''{{TAG_NAME}}'' = token TAG_NAME"
  "str ''{{RELEASE_NAME}}'' = token RELEASE_NAME"
  "str ''{{DOWNLOAD_SECTIONS}}'' = token DOWNLOAD_SECTIONS"
  "str ''{{CHECKSUMS}}'' = token CHECKSUMS"
  by simp_all

lemma replace_placeholders_tokens:
  "replace_placeholders content a b c d =
     replace_scan (token CHECKSUMS) d (replace_scan (token DOWNLOAD_SECTIONS) c
       (replace_scan (token RELEASE_NAME) b (replace_scan (token TAG_NAME) a content)))"
  unfolding replace_placeholders_def Let_def tokens_str str_replace_token ..

lemma render_empty_segments:
  assumes "\<not> has_placeholder (plain_text segs)"
  shows "replace_placeholders (template_text segs) [] [] [] [] = plain_text segs"
proof -
  define s1 where "s1 = filter (\<lambda>seg. seg \<noteq> Slot TAG_NAME) segs"
  define s2 where "s2 = filter (\<lambda>seg. seg \<noteq> Slot RELEASE_NAME) s1"
  define s3 where "s3 = filter (\<lambda>seg. seg \<noteq> Slot DOWNLOAD_SECTIONS) s2"
  define s4 where "s4 = filter (\<lambda>seg. seg \<noteq> Slot CHECKSUMS) s3"
  have p1: "plain_text s1 = plain_text segs" by (simp add: s1_def plain_text_filter)
  have p2: "plain_text s2 = plain_text segs" by (simp add: s2_def plain_text_filter p1)
  have p3: "plain_text s3 = plain_text segs" by (simp add: s3_def plain_text_filter p2)
  have p4: "plain_text s4 = plain_text segs" by (simp add: s4_def plain_text_filter p3)
  have r1: "replace_scan (token TAG_NAME) [] (template_text segs) = template_text s1"
    unfolding s1_def using assms by (rule delete_one_slot)
  have r2: "replace_scan (token RELEASE_NAME) [] (template_text s1) = template_text s2"
    unfolding s2_def using assms p1 by (intro delete_one_slot) simp
  have r3: "replace_scan (token DOWNLOAD_SECTIONS) [] (template_text s2) = template_text s3"
    unfolding s3_def using assms p2 by (intro delete_one_slot) simp
  have r4: "replace_scan (token CHECKSUMS) [] (template_text s3) = template_text s4"
    unfolding s4_def using assms p3 by (intro delete_one_slot) simp
  have "\<forall>p. Slot p \<notin> set s4"
  proof
    fix p show "Slot p \<notin> set s4"
      by (cases p) (auto simp: s4_def s3_def s2_def s1_def)
  qed
  then have "template_text s4 = plain_text s4" by (rule template_text_no_slot)
  moreover have "replace_placeholders (template_text segs) [] [] [] [] = template_text s4"
    by (simp only: replace_placeholders_tokens r1 r2 r3 r4)
  ultimately show ?thesis using p4 by simp
qed


lemma segments_of_string:
  "k \<le> length t \<Longrightarrow> \<exists>segs. template_text segs = drop k t \<and> plain_text segs = delete_scan k t"
proof (induction t arbitrary: k)
  case Nil
  then have "template_text [] = drop k [] \<and> plain_text [] = delete_scan k []" by simp
  then show ?case by blast
next
  case (Cons c cs)
  show ?case
  proof (cases "0 < k")
    case True
    then obtain j where j: "k = Suc j" by (cases k) auto
    with Cons.prems have "j \<le> length cs" by simp
    from Cons.IH [OF this] obtain segs where
      "template_text segs = drop j cs" "plain_text segs = delete_scan j cs" by blast
    then have "template_text segs = drop k (c # cs) \<and> plain_text segs = delete_scan k (c # cs)"
      using j by simp
    then show ?thesis by blast
  next
    case False
    then have k: "k = 0" by simp
    show ?thesis
    proof (cases "find (\<lambda>p. prefix (token p) (c # cs)) placeholders")
      case None
      from Cons.IH [of 0] obtain segs where
        "template_text segs = cs" "plain_text segs = delete_scan 0 cs" by auto
      then have "template_text (Chr c # segs) = drop k (c # cs)
                 \<and> plain_text (Chr c # segs) = delete_scan k (c # cs)"
        using k None by simp
      then show ?thesis by blast
    next
      case (Some p)
      then have pre: "prefix (token p) (c # cs)" by (auto simp: find_Some_iff)
      then obtain rest where rest: "c # cs = token p @ rest" by (auto simp: prefix_def)
      have lp: "0 < length (token p)" using token_not_Nil by simp
      from rest have len: "Suc (length cs) = length (token p) + length rest"
        by (metis length_Cons length_append)
      then have le: "length (token p) - 1 \<le> length cs" using lp by simp
      from rest have "drop (length (token p)) (c # cs) = rest" by simp
      moreover have "drop (length (token p)) (c # cs) = drop (length (token p) - 1) cs"
        using lp by (cases "length (token p)") simp_all
      ultimately have dr: "drop (length (token p) - 1) cs = rest" by simp
      from Cons.IH [OF le] obtain segs where
        segs: "template_text segs = drop (length (token p) - 1) cs"
              "plain_text segs = delete_scan (length (token p) - 1) cs" by blast
      have "template_text (Slot p # segs) = drop k (c # cs)"
        using segs(1) dr rest k by simp
      moreover have "plain_text (Slot p # segs) = delete_scan k (c # cs)"
        using segs(2) k Some by simp
      ultimately show ?thesis by blast
    qed
  qed
qed

lemma render_empty_string:
  assumes "\<not> has_placeholder (delete_tokens t)"
  shows "replace_placeholders t [] [] [] [] = delete_tokens t"
proof -
  from segments_of_string [of 0 t] obtain segs where
    segs: "template_text segs = t" "plain_text segs = delete_tokens t"
    by (auto simp: delete_tokens_def)
  with assms have "\<not> has_placeholder (plain_text segs)" by simp
  from render_empty_segments [OF this] show ?thesis using segs by simp
qed

lemma render_identity:
  assumes "\<not> has_placeholder t"
  shows "replace_placeholders t a b c d = t"
proof -
  from assms have n: "\<And>p. \<not> str_contains (token p) t" by (simp add: has_placeholder_iff)
  show ?thesis
    by (simp only: replace_placeholders_tokens replace_scan_absent [OF n])
qed

text \<open>
  C4 (as amended). For every template, with any number of occurrences of the four tokens:
  if the template with the tokens deleted contains none of the four tokens, rendering
  with the four contents empty yields exactly the template with the tokens deleted, every
  other character (also any other token in double braces) unchanged. The replacement of
  a token that does not occur changes nothing, and a template without placeholder tokens
  is rendered to itself, whatever the contents.
\<close>

theorem render_empty_deletes_tokens:
  "(\<not> has_placeholder (delete_tokens t) \<longrightarrow>
      replace_placeholders t [] [] [] [] = delete_tokens t)
   \<and> (\<not> str_contains (token p) s \<longrightarrow> str_replace (token p) v s = s)
   \<and> (\<not> has_placeholder t \<longrightarrow> replace_placeholders t a b c d = t)"
  using render_empty_string [of t] str_replace_absent [of "token p" s v]
    render_identity [of t a b c d]
  by blast

theorem render_empty_deletes_tokens_witness:
  "\<not> has_placeholder (delete_tokens (str ''<p>{{TAG_NAME}} {{FOO}} {{CHECKSUMS}}</p>''))
   \<and> delete_tokens (str ''<p>{{TAG_NAME}} {{FOO}} {{CHECKSUMS}}</p>'') = str ''<p> {{FOO}} </p>''
   \<and> replace_placeholders (str ''<p>{{TAG_NAME}} {{FOO}} {{CHECKSUMS}}</p>'') [] [] [] []
       = str ''<p> {{FOO}} </p>''"
proof -
  have d: "delete_tokens (str ''<p>{{TAG_NAME}} {{FOO}} {{CHECKSUMS}}</p>'') = str ''<p> {{FOO}} </p>''"
    by (simp add: delete_tokens_def placeholders_def str_def)
  have h: "\<not> has_placeholder (str ''<p> {{FOO}} </p>'')"
    by (simp add: has_placeholder_def placeholders_def str_def)
  show ?thesis
    using render_empty_deletes_tokens [of "str ''<p>{{TAG_NAME}} {{FOO}} {{CHECKSUMS}}</p>''"]
    by (simp add: d h)
qed

text \<open>
  The claim as written fails: deleting a token can bring the two halves of another token
  together, and that token is deleted by a later replacement. Here each token occurs at
  most once, but the page is empty instead of \<open>{{CHECKSUMS}}\<close>.
\<close>

theorem render_empty_counterexample:
  "list_all (\<lambda>p. occurrences (token p) (str ''{{CHECK{{TAG_NAME}}SUMS}}'') \<le> 1) placeholders
   \<and> delete_tokens (str ''{{CHECK{{TAG_NAME}}SUMS}}'') = str ''{{CHECKSUMS}}''
   \<and> replace_placeholders (str ''{{CHECK{{TAG_NAME}}SUMS}}'') [] [] [] [] = []
   \<and> replace_placeholders (str ''{{CHECK{{TAG_NAME}}SUMS}}'') [] [] [] []
       \<noteq> delete_tokens (str ''{{CHECK{{TAG_NAME}}SUMS}}'')"
  by (simp add: delete_tokens_def placeholders_def replace_placeholders_def str_replace_def str_def)

subsection \<open>Order of the replacements\<close>

lemma replace_token_skip:
  "123 \<notin> set a \<Longrightarrow> replace_scan (token p) new (a @ s) = a @ replace_scan (token p) new s"
  using token_starts [of p] replace_scan_skip [of "token p" 123 _ a new s] by auto

lemma replace_token_plain:
  "123 \<notin> set b \<Longrightarrow> replace_scan (token p) new b = b"
  using replace_token_skip [of b p new "[]"] by simp

text \<open>
  C10. The four replacements are applied one after the other to the whole content, in the
  order TAG_NAME, RELEASE_NAME, DOWNLOAD_SECTIONS, CHECKSUMS, and a value put in is
  rewritten by the later ones: with the tag name \<open>{{CHECKSUMS}}\<close>, the page has the
  checksum section where the template has \<open>{{TAG_NAME}}\<close> (shown for templates whose
  other text is free of \<open>{\<close>).
\<close>

theorem replacements_in_order:
  "replace_placeholders content tag_name release_name download_sections checksums =
     str_replace (str ''{{CHECKSUMS}}'') checksums
       (str_replace (str ''{{DOWNLOAD_SECTIONS}}'') download_sections
         (str_replace (str ''{{RELEASE_NAME}}'') release_name
           (str_replace (str ''{{TAG_NAME}}'') tag_name content)))
   \<and> (123 \<notin> set a \<and> 123 \<notin> set b \<longrightarrow>
        replace_placeholders (a @ str ''{{TAG_NAME}}'' @ b) (str ''{{CHECKSUMS}}'')
          release_name download_sections checksums
        = a @ checksums @ b)"
proof (intro conjI impI)
  show "replace_placeholders content tag_name release_name download_sections checksums =
     str_replace (str ''{{CHECKSUMS}}'') checksums
       (str_replace (str ''{{DOWNLOAD_SECTIONS}}'') download_sections
         (str_replace (str ''{{RELEASE_NAME}}'') release_name
           (str_replace (str ''{{TAG_NAME}}'') tag_name content)))"
    by (simp add: replace_placeholders_def)
next
  assume ab: "123 \<notin> set a \<and> 123 \<notin> set b"
  then have a: "123 \<notin> set a" and b: "123 \<notin> set b" by simp_all
  have s1: "replace_scan (token TAG_NAME) (token CHECKSUMS) (a @ token TAG_NAME @ b)
            = a @ token CHECKSUMS @ b"
    by (simp only: replace_token_skip [OF a] replace_scan_here [OF token_not_Nil]
        replace_token_plain [OF b])
  have s2: "replace_scan (token RELEASE_NAME) release_name (a @ token CHECKSUMS @ b)
            = a @ token CHECKSUMS @ b"
  proof -
    have ne: "RELEASE_NAME \<noteq> CHECKSUMS" by simp
    have "replace_scan (token RELEASE_NAME) release_name (a @ token CHECKSUMS @ b)
          = a @ replace_scan (token RELEASE_NAME) release_name (token CHECKSUMS @ b)"
      by (rule replace_token_skip [OF a])
    also have "\<dots> = a @ token CHECKSUMS @ replace_scan (token RELEASE_NAME) release_name b"
      by (simp only: replace_scan_over_token [OF ne])
    also have "\<dots> = a @ token CHECKSUMS @ b"
      by (simp only: replace_token_plain [OF b])
    finally show ?thesis .
  qed
  have s3: "replace_scan (token DOWNLOAD_SECTIONS) download_sections (a @ token CHECKSUMS @ b)
            = a @ token CHECKSUMS @ b"
  proof -
    have ne: "DOWNLOAD_SECTIONS \<noteq> CHECKSUMS" by simp
    have "replace_scan (token DOWNLOAD_SECTIONS) download_sections (a @ token CHECKSUMS @ b)
          = a @ replace_scan (token DOWNLOAD_SECTIONS) download_sections (token CHECKSUMS @ b)"
      by (rule replace_token_skip [OF a])
    also have "\<dots> = a @ token CHECKSUMS @ replace_scan (token DOWNLOAD_SECTIONS) download_sections b"
      by (simp only: replace_scan_over_token [OF ne])
    also have "\<dots> = a @ token CHECKSUMS @ b"
      by (simp only: replace_token_plain [OF b])
    finally show ?thesis .
  qed
  have s4: "replace_scan (token CHECKSUMS) checksums (a @ token CHECKSUMS @ b)
            = a @ checksums @ b"
    by (simp only: replace_token_skip [OF a] replace_scan_here [OF token_not_Nil]
        replace_token_plain [OF b])
  have "replace_placeholders (a @ token TAG_NAME @ b) (token CHECKSUMS)
          release_name download_sections checksums = a @ checksums @ b"
    by (simp only: replace_placeholders_tokens s1 s2 s3 s4)
  then show "replace_placeholders (a @ str ''{{TAG_NAME}}'' @ b) (str ''{{CHECKSUMS}}'')
          release_name download_sections checksums = a @ checksums @ b"
    by simp
qed

theorem replacements_in_order_witness:
  "123 \<notin> set (str ''<b>'') \<and> 123 \<notin> set (str ''</b>'')
   \<and> replace_placeholders (str ''<b>{{TAG_NAME}}</b>'') (str ''{{CHECKSUMS}}'')
        (str ''First Release'') (str ''<div/>'') (str ''abcd1234'')
      = str ''<b>abcd1234</b>''"
  using replacements_in_order [where a = "str ''<b>''" and b = "str ''</b>''"
      and release_name = "str ''First Release''" and download_sections = "str ''<div/>''"
      and checksums = "str ''abcd1234''", THEN conjunct2]
  by (simp add: str_def)

section \<open>Platform sections\<close>

lemma platform_loop_concat:
  "platform_loop w acc files =
     acc @ concat (map (\<lambda>f. download_entry (basename f) (get_arch_info (basename f))
                                  (get_file_size w f)) files)"
  by (induction files arbitrary: acc) (simp_all add: Let_def)

lemma basename_no_slash: "47 \<notin> set name \<Longrightarrow> basename name = name"
proof -
  assume "47 \<notin> set name"
  then have "\<forall>x \<in> set (rev name). x \<noteq> 47" by auto
  then have t: "takeWhile (\<lambda>c. c \<noteq> 47) (rev name) = rev name"
    by (simp only: takeWhile_eq_all_conv)
  show ?thesis unfolding basename_def t by simp
qed

lemma basename_after_slash: "47 \<notin> set name \<Longrightarrow> basename (dir @ 47 # name) = name"
proof -
  assume "47 \<notin> set name"
  then have a: "\<forall>x \<in> set (rev name). x \<noteq> 47" by auto
  have "takeWhile (\<lambda>c. c \<noteq> 47) (rev name @ 47 # rev dir)
        = takeWhile (\<lambda>c. c \<noteq> 47) (rev name)"
    by (rule takeWhile_tail) simp
  also have "\<dots> = rev name" using a by (simp only: takeWhile_eq_all_conv)
  finally have t: "takeWhile (\<lambda>c. c \<noteq> 47) (rev name @ 47 # rev dir) = rev name" .
  have r: "rev (dir @ 47 # name) = rev name @ 47 # rev dir" by simp
  show ?thesis unfolding basename_def r t by simp
qed

text \<open>
  C8. When no regular file other than a \<open>.sha256\<close> file matches the pattern, the
  platform section is the empty string. Otherwise it is one card: the opening with icon
  and name, then for each file, in the order of the enumeration, a download link to the
  bare file name, labelled with it, and a caption of architecture label, bullet and
  formatted size, then the closing. The bare file name is what follows the last slash.
\<close>

theorem platform_section_card:
  \<open>(filter (\<lambda>f. \<not> endswith f (str ''.sha256'') \<and> isfile w f) (glob w file_pattern) = []
      \<longrightarrow> generate_platform_section w platform_name platform_icon file_pattern = [])
   \<and> (filter (\<lambda>f. \<not> endswith f (str ''.sha256'') \<and> isfile w f) (glob w file_pattern) \<noteq> []
      \<longrightarrow> generate_platform_section w platform_name platform_icon file_pattern =
           str ''                <div class="platform-card">\<newline>                    <h3><span class="platform-icon">''
           @ platform_icon @ str ''</span>'' @ platform_name @ str ''</h3>''
           @ concat (map (\<lambda>f.
                 str ''\<newline>                    <a href="'' @ basename f
                 @ str ''" class="download-link">'' @ basename f
                 @ str ''</a>\<newline>                    <div class="file-info">''
                 @ get_arch_info (basename f) @ str '' '' @ [8226] @ str '' ''
                 @ get_file_size w f @ str ''</div>'')
               (filter (\<lambda>f. \<not> endswith f (str ''.sha256'') \<and> isfile w f)
                  (glob w file_pattern)))
           @ str ''\<newline>                </div>'')
   \<and> (47 \<notin> set name \<longrightarrow> basename name = name \<and> basename (dir @ 47 # name) = name)\<close>
  using basename_no_slash [of name] basename_after_slash [of name dir]
  by (simp add: generate_platform_section_def Let_def platform_loop_concat
      platform_card_open_def download_entry_def platform_card_close_def)

lemma scenario_glob_linux:
  "glob scenario (str ''amo_linux_*'') = [str ''amo_linux_amd64'', str ''amo_linux_amd64.sha256'']"
  by (simp add: glob_def has_magic_def ishidden_def scenario_def str_def)

lemma scenario_glob_darwin: "glob scenario (str ''amo_darwin_*'') = []"
  by (simp add: glob_def has_magic_def ishidden_def scenario_def str_def)

lemma scenario_files_linux:
  "filter (\<lambda>f. \<not> endswith f (str ''.sha256'') \<and> isfile scenario f)
     (glob scenario (str ''amo_linux_*'')) = [str ''amo_linux_amd64'']"
  unfolding scenario_glob_linux
  by (simp add: endswith_def suffix_to_prefix scenario_def str_def)

lemma scenario_size: "get_file_size scenario (str ''amo_linux_amd64'') = str ''10.0B''"
  by (simp add: get_file_size_def scenario_def human_size_def float_of_int_def fixed_1f_def
      round_half_even_def nat_digits.simps str_def)

lemma scenario_arch: "get_arch_info (str ''amo_linux_amd64'') = str ''64-bit''"
  by (simp add: get_arch_info_def str_def)

lemma basename_amo: "basename (str ''amo_linux_amd64'') = str ''amo_linux_amd64''"
  by (simp add: basename_def str_def)

theorem platform_section_card_witness:
  \<open>filter (\<lambda>f. \<not> endswith f (str ''.sha256'') \<and> isfile scenario f)
     (glob scenario (str ''amo_darwin_*'')) = []
   \<and> generate_platform_section scenario (str ''macOS'') [127822] (str ''amo_darwin_*'') = []
   \<and> filter (\<lambda>f. \<not> endswith f (str ''.sha256'') \<and> isfile scenario f)
        (glob scenario (str ''amo_linux_*'')) = [str ''amo_linux_amd64'']
   \<and> generate_platform_section scenario (str ''Linux'') [128039] (str ''amo_linux_*'') =
       str ''                <div class="platform-card">\<newline>                    <h3><span class="platform-icon">''
       @ [128039]
       @ str ''</span>Linux</h3>\<newline>                    <a href="amo_linux_amd64" class="download-link">amo_linux_amd64</a>\<newline>                    <div class="file-info">64-bit ''
       @ [8226] @ str '' 10.0B</div>\<newline>                </div>''
   \<and> 47 \<notin> set (str ''amo_linux_amd64'')
   \<and> basename (str ''dist/amo_linux_amd64'') = str ''amo_linux_amd64''\<close>
proof -
  have d: "str ''dist'' @ 47 # str ''amo_linux_amd64'' = str ''dist/amo_linux_amd64''"
    by (simp add: str_def)
  have n: "47 \<notin> set (str ''amo_linux_amd64'')" by (simp add: str_def)
  have b: "basename (str ''dist/amo_linux_amd64'') = str ''amo_linux_amd64''"
    using platform_section_card [of scenario "str ''amo_linux_*''" "str ''Linux''" "[128039]"
        "str ''amo_linux_amd64''" "str ''dist''", THEN conjunct2, THEN conjunct2] n
    by (simp add: d)
  have m: "generate_platform_section scenario (str ''macOS'') [127822] (str ''amo_darwin_*'') = []"
    using platform_section_card [of scenario "str ''amo_darwin_*''" "str ''macOS''" "[127822]"]
    by (simp add: scenario_glob_darwin)
  have l: \<open>generate_platform_section scenario (str ''Linux'') [128039] (str ''amo_linux_*'') =
       str ''                <div class="platform-card">\<newline>                    <h3><span class="platform-icon">''
       @ [128039]
       @ str ''</span>Linux</h3>\<newline>                    <a href="amo_linux_amd64" class="download-link">amo_linux_amd64</a>\<newline>                    <div class="file-info">64-bit ''
       @ [8226] @ str '' 10.0B</div>\<newline>                </div>''\<close>
    using platform_section_card [of scenario "str ''amo_linux_*''" "str ''Linux''" "[128039]"]
    by (simp add: scenario_files_linux scenario_size basename_amo scenario_arch)
       (simp add: str_def)
  show ?thesis
    by (simp add: scenario_glob_darwin scenario_files_linux m l n b)
qed

section \<open>Checksum section\<close>

lemma takeWhile_before_spaces:
  "\<forall>x \<in> set b. is_space x \<Longrightarrow>
   takeWhile (\<lambda>x. \<not> is_space x) (a @ b) = takeWhile (\<lambda>x. \<not> is_space x) a"
proof (induction a)
  case Nil
  then show ?case by (cases b) simp_all
next
  case (Cons x a)
  then show ?case by simp
qed

lemma rstrip_split:
  "cs = rev (dropWhile is_space (rev cs)) @ rev (takeWhile is_space (rev cs))"
  by (metis rev_append rev_rev_ident takeWhile_dropWhile_id)

lemma takeWhile_rstrip:
  "takeWhile (\<lambda>x. \<not> is_space x) (rev (dropWhile is_space (rev cs)))
   = takeWhile (\<lambda>x. \<not> is_space x) cs"
proof -
  have "\<forall>x \<in> set (rev (takeWhile is_space (rev cs))). is_space x"
    by (auto dest: set_takeWhileD)
  from takeWhile_before_spaces [OF this, of "rev (dropWhile is_space (rev cs))"]
  show ?thesis using rstrip_split [of cs] by simp
qed

lemma str_strip_Cons:
  assumes "dropWhile is_space s = c # cs"
  shows "str_strip s = c # rev (dropWhile is_space (rev cs))"
proof -
  have c: "\<not> is_space c" using assms by (metis hd_dropWhile list.sel(1) list.distinct(1))
  show ?thesis using c by (simp add: str_strip_def assms dropWhile_append)
qed

lemma split_strip_first:
  "(case str_split (str_strip s) of [] \<Rightarrow> None | tok # rest \<Rightarrow> Some tok) = first_token s"
proof (cases "dropWhile is_space s")
  case Nil
  have "str_strip s = []" unfolding str_strip_def Nil by simp
  moreover have "str_split [] = []" by (subst str_split.simps) simp
  moreover have "first_token s = None" unfolding first_token_def Nil by simp
  ultimately show ?thesis by simp
next
  case (Cons c cs)
  have c: "\<not> is_space c" using Cons by (metis hd_dropWhile list.sel(1) list.distinct(1))
  have st: "str_strip s = c # rev (dropWhile is_space (rev cs))" using Cons by (rule str_strip_Cons)
  show ?thesis
    unfolding st
    by (subst str_split.simps) (simp add: c first_token_def Cons takeWhile_rstrip)
qed

lemma read_checksum_first_token:
  "read_checksum w sha_file =
     (case read_text w LocaleDefault sha_file of
        Inl err \<Rightarrow> Inl err
      | Inr body \<Rightarrow> (case first_token body of None \<Rightarrow> Inl IndexError | Some tok \<Rightarrow> Inr tok))"
proof (cases "read_text w LocaleDefault sha_file")
  case (Inl err)
  then show ?thesis by (simp add: read_checksum_def)
next
  case (Inr body)
  have ft: "first_token body =
      (case str_split (str_strip body) of [] \<Rightarrow> None | tok # rest \<Rightarrow> Some tok)"
    by (rule split_strip_first [symmetric])
  show ?thesis
    by (simp add: read_checksum_def Inr ft split: list.splits)
qed

lemma checksums_loop_step:
  "checksums_loop w acc (f # fs) = checksums_loop w (acc @ checksum_entry w f) fs"
proof (cases "isfile w (str_replace (str ''.sha256'') [] f)")
  case False
  then show ?thesis by (simp add: checksum_entry_def Let_def)
next
  case True
  show ?thesis
  proof (cases "read_text w LocaleDefault f")
    case (Inl err)
    then show ?thesis using True
      by (simp add: checksum_entry_def Let_def read_checksum_first_token)
  next
    case (Inr body)
    then show ?thesis using True
      by (cases "first_token body")
         (simp_all add: checksum_entry_def Let_def read_checksum_first_token)
  qed
qed

lemma checksums_loop_concat:
  "checksums_loop w acc sha_files = acc @ concat (map (checksum_entry w) sha_files)"
proof (induction sha_files arbitrary: acc)
  case Nil
  then show ?case by simp
next
  case (Cons f fs)
  show ?case by (simp only: checksums_loop_step Cons.IH) simp
qed

lemma checksums_section_concat:
  "generate_checksums_section w = concat (map (checksum_entry w) (glob w (str ''*.sha256'')))"
  by (simp add: generate_checksums_section_def Let_def checksums_loop_concat)

lemma takeWhile_stop: "\<not> P y \<Longrightarrow> takeWhile P (xs @ y # ys) = takeWhile P xs"
  by (induction xs) simp_all

lemma first_token_of_first_line:
  assumes "first_token (first_line body) = Some tok"
  shows "first_token body = Some tok"
proof -
  define l where "l = first_line body"
  define rest where "rest = dropWhile (\<lambda>c. c \<noteq> 10) body"
  have body: "body = l @ rest" by (simp add: l_def rest_def first_line_def)
  have sp: "is_space 10" by (simp add: is_space_def)
  have ft: "first_token l = Some tok" using assms by (simp only: l_def)
  show ?thesis
  proof (cases "dropWhile is_space l")
    case Nil
    then have "first_token l = None" by (simp only: first_token_def list.case)
    with ft show ?thesis by simp
  next
    case (Cons c cs)
    then have "first_token l = Some (c # takeWhile (\<lambda>x. \<not> is_space x) cs)"
      by (simp only: first_token_def list.case)
    with ft have tok: "tok = c # takeWhile (\<lambda>x. \<not> is_space x) cs" by simp
    have "dropWhile is_space l \<noteq> []" using Cons by simp
    then have ex: "\<exists>x \<in> set l. \<not> is_space x" by (simp only: dropWhile_eq_Nil_conv) blast
    then obtain x where x: "x \<in> set l" "\<not> is_space x" by blast
    have "dropWhile is_space (l @ rest) = dropWhile is_space l @ rest"
      using x by (rule dropWhile_append1)
    then have d': "dropWhile is_space body = c # cs @ rest" by (simp add: body Cons)
    have tw: "takeWhile (\<lambda>x. \<not> is_space x) (cs @ rest) = takeWhile (\<lambda>x. \<not> is_space x) cs"
    proof (cases rest)
      case Nil
      then show ?thesis by simp
    next
      case (Cons y r)
      have "hd (dropWhile (\<lambda>c. c \<noteq> 10) body) = 10"
        using Cons hd_dropWhile [of "\<lambda>c. c \<noteq> 10" body] by (simp add: rest_def)
      then have "y = 10" using Cons by (simp add: rest_def)
      then have "\<not> \<not> is_space y" using sp by simp
      then show ?thesis unfolding Cons by (rule takeWhile_stop)
    qed
    have "first_token body = Some (c # takeWhile (\<lambda>x. \<not> is_space x) (cs @ rest))"
      by (simp only: first_token_def d' list.case)
    then show ?thesis by (simp only: tw tok)
  qed
qed

lemma checksum_entry_rendered:
  \<open>isfile w (str_replace (str ''.sha256'') [] sha_file) \<Longrightarrow>
   read_text w LocaleDefault sha_file = Inr body \<Longrightarrow> first_token body = Some tok \<Longrightarrow>
   checksum_entry w sha_file =
     str ''\<newline>                <div class="checksum-item">\<newline>                    <div class="checksum-filename">''
     @ str_replace (str ''.sha256'') [] sha_file
     @ str ''</div>\<newline>                    <div class="checksum-hash">''
     @ tok @ str ''</div>\<newline>                </div>''\<close>
  by (simp add: checksum_entry_def Let_def checksum_item_def)

lemma checksum_entry_skipped:
  "read_text w LocaleDefault sha_file = Inl err
   \<or> (read_text w LocaleDefault sha_file = Inr body \<and> first_token body = None) \<Longrightarrow>
   checksum_entry w sha_file = []"
  by (auto simp: checksum_entry_def Let_def)

lemma checksums_skip_one:
  assumes "glob w (str ''*.sha256'') = before @ sha_file # after"
    "checksum_entry w sha_file = []"
  shows "generate_checksums_section w
         = concat (map (checksum_entry w) before) @ concat (map (checksum_entry w) after)"
  by (simp add: checksums_section_concat assms)

text \<open>
  C6 (as amended). The checksum section is the concatenation, in the order of the
  enumeration, of what each checksum file adds on its own. A file whose artifact exists
  adds one item that shows the artifact name and, as hash, the first whitespace-delimited
  token of the whole content of the file; this is the first token of the first line
  whenever the first line has one. A file that cannot be read, or that holds no token,
  adds nothing: the section is then what the files before it and the files after it
  add.
\<close>

theorem checksum_hash_first_token:
  \<open>generate_checksums_section w = concat (map (checksum_entry w) (glob w (str ''*.sha256'')))
   \<and> (isfile w (str_replace (str ''.sha256'') [] sha_file)
        \<and> read_text w LocaleDefault sha_file = Inr body \<and> first_token body = Some tok
      \<longrightarrow> checksum_entry w sha_file =
           str ''\<newline>                <div class="checksum-item">\<newline>                    <div class="checksum-filename">''
           @ str_replace (str ''.sha256'') [] sha_file
           @ str ''</div>\<newline>                    <div class="checksum-hash">''
           @ tok @ str ''</div>\<newline>                </div>'')
   \<and> (read_text w LocaleDefault sha_file = Inl err
        \<or> (read_text w LocaleDefault sha_file = Inr body \<and> first_token body = None)
      \<longrightarrow> checksum_entry w sha_file = [])
   \<and> (glob w (str ''*.sha256'') = before @ sha_file # after
        \<and> (read_text w LocaleDefault sha_file = Inl err
             \<or> (read_text w LocaleDefault sha_file = Inr body \<and> first_token body = None))
      \<longrightarrow> generate_checksums_section w
           = concat (map (checksum_entry w) before) @ concat (map (checksum_entry w) after))
   \<and> (first_token (first_line body) = Some tok \<longrightarrow> first_token body = Some tok)\<close>
proof -
  have a: "generate_checksums_section w
           = concat (map (checksum_entry w) (glob w (str ''*.sha256'')))"
    by (rule checksums_section_concat)
  have d: "glob w (str ''*.sha256'') = before @ sha_file # after
        \<and> (read_text w LocaleDefault sha_file = Inl err
             \<or> (read_text w LocaleDefault sha_file = Inr body \<and> first_token body = None))
      \<longrightarrow> generate_checksums_section w
           = concat (map (checksum_entry w) before) @ concat (map (checksum_entry w) after)"
    using checksums_skip_one [of w before sha_file after]
      checksum_entry_skipped [of w sha_file err body] by blast
  show ?thesis
    using a d first_token_of_first_line [of body tok]
      checksum_entry_rendered [of w sha_file body tok]
      checksum_entry_skipped [of w sha_file err body]
    by blast
qed

lemma scenario_glob_sha:
  "glob scenario (str ''*.sha256'') = [str ''amo_linux_amd64.sha256'']"
  by (simp add: glob_def has_magic_def ishidden_def scenario_def str_def)

lemma scenario_binary_name:
  "str_replace (str ''.sha256'') [] (str ''amo_linux_amd64.sha256'') = str ''amo_linux_amd64''"
  by (simp add: str_replace_def str_def)

lemma scenario_first_token:
  "first_token (str ''abcd1234 amo_linux_amd64'') = Some (str ''abcd1234'')"
  by (simp add: first_token_def is_space_def str_def)

lemma partial_glob_sha:
  "glob partial_failure_world (str ''*.sha256'')
   = [str ''locked.sha256'', str ''blank.sha256''] @ str ''amo_linux_amd64.sha256'' # []"
  by (simp add: glob_def has_magic_def ishidden_def partial_failure_world_def str_def)

theorem checksum_hash_first_token_witness:
  \<open>isfile scenario (str_replace (str ''.sha256'') [] (str ''amo_linux_amd64.sha256''))
   \<and> read_text scenario LocaleDefault (str ''amo_linux_amd64.sha256'')
       = Inr (str ''abcd1234 amo_linux_amd64'')
   \<and> first_token (first_line (str ''abcd1234 amo_linux_amd64'')) = Some (str ''abcd1234'')
   \<and> first_token (str ''abcd1234 amo_linux_amd64'') = Some (str ''abcd1234'')
   \<and> generate_checksums_section scenario =
       str ''\<newline>                <div class="checksum-item">\<newline>                    <div class="checksum-filename">amo_linux_amd64</div>\<newline>                    <div class="checksum-hash">abcd1234</div>\<newline>                </div>''
   \<and> glob partial_failure_world (str ''*.sha256'')
       = [str ''locked.sha256'', str ''blank.sha256'', str ''amo_linux_amd64.sha256'']
   \<and> read_text partial_failure_world LocaleDefault (str ''locked.sha256'') = Inl PermissionError
   \<and> read_text partial_failure_world LocaleDefault (str ''blank.sha256'') = Inr (str '' \<newline>'')
   \<and> first_token (str '' \<newline>'') = None
   \<and> generate_checksums_section partial_failure_world =
       str ''\<newline>                <div class="checksum-item">\<newline>                    <div class="checksum-filename">amo_linux_amd64</div>\<newline>                    <div class="checksum-hash">abcd1234</div>\<newline>                </div>''\<close>
proof -
  have f: "isfile scenario (str ''amo_linux_amd64'')" by (simp add: scenario_def)
  have r: "read_text scenario LocaleDefault (str ''amo_linux_amd64.sha256'')
           = Inr (str ''abcd1234 amo_linux_amd64'')"
    by (simp add: scenario_def str_def)
  have l: "first_line (str ''abcd1234 amo_linux_amd64'') = str ''abcd1234 amo_linux_amd64''"
    by (simp add: first_line_def str_def)
  note t = checksum_hash_first_token [of scenario "str ''amo_linux_amd64.sha256''"
        "str ''abcd1234 amo_linux_amd64''" "str ''abcd1234''"]
  have e: \<open>checksum_entry scenario (str ''amo_linux_amd64.sha256'') =
       str ''\<newline>                <div class="checksum-item">\<newline>                    <div class="checksum-filename">amo_linux_amd64</div>\<newline>                    <div class="checksum-hash">abcd1234</div>\<newline>                </div>''\<close>
    using t by (simp add: scenario_binary_name scenario_first_token f r) (simp add: str_def)
  have s: \<open>generate_checksums_section scenario =
       str ''\<newline>                <div class="checksum-item">\<newline>                    <div class="checksum-filename">amo_linux_amd64</div>\<newline>                    <div class="checksum-hash">abcd1234</div>\<newline>                </div>''\<close>
    using t by (simp add: scenario_glob_sha e)
  have pf: "isfile partial_failure_world (str ''amo_linux_amd64'')"
    by (simp add: partial_failure_world_def)
  have pr: "read_text partial_failure_world LocaleDefault (str ''amo_linux_amd64.sha256'')
           = Inr (str ''abcd1234 amo_linux_amd64'')"
    by (simp add: partial_failure_world_def scenario_def str_def)
  have p1: "read_text partial_failure_world LocaleDefault (str ''locked.sha256'')
            = Inl PermissionError"
    by (simp add: partial_failure_world_def)
  have p2: "read_text partial_failure_world LocaleDefault (str ''blank.sha256'')
            = Inr (str '' \<newline>'')"
    by (simp add: partial_failure_world_def str_def)
  have p3: "first_token (str '' \<newline>'') = None"
    by (simp add: first_token_def is_space_def str_def)
  have pe: \<open>checksum_entry partial_failure_world (str ''amo_linux_amd64.sha256'') =
       str ''\<newline>                <div class="checksum-item">\<newline>                    <div class="checksum-filename">amo_linux_amd64</div>\<newline>                    <div class="checksum-hash">abcd1234</div>\<newline>                </div>''\<close>
    using checksum_hash_first_token [of partial_failure_world "str ''amo_linux_amd64.sha256''"
        "str ''abcd1234 amo_linux_amd64''" "str ''abcd1234''"]
    by (simp add: scenario_binary_name scenario_first_token pf pr) (simp add: str_def)
  have g1: "glob partial_failure_world (str ''*.sha256'')
            = [] @ str ''locked.sha256'' # [str ''blank.sha256'', str ''amo_linux_amd64.sha256'']"
    by (simp add: partial_glob_sha)
  have e1: "checksum_entry partial_failure_world (str ''locked.sha256'') = []"
    using checksum_hash_first_token [of partial_failure_world "str ''locked.sha256''" _ _
        PermissionError] p1 by blast
  have e2: "checksum_entry partial_failure_world (str ''blank.sha256'') = []"
    using checksum_hash_first_token [of partial_failure_world "str ''blank.sha256''"
        "str '' \<newline>''"] p2 p3 by blast
  have ps: \<open>generate_checksums_section partial_failure_world =
       str ''\<newline>                <div class="checksum-item">\<newline>                    <div class="checksum-filename">amo_linux_amd64</div>\<newline>                    <div class="checksum-hash">abcd1234</div>\<newline>                </div>''\<close>
    using checksum_hash_first_token [of partial_failure_world "str ''locked.sha256''" _ _
        PermissionError "[]" "[str ''blank.sha256'', str ''amo_linux_amd64.sha256'']"]
      g1 p1
    by (simp add: e2 pe)
  show ?thesis
    by (simp add: scenario_binary_name f r l scenario_first_token s partial_glob_sha p1 p2 p3 ps)
qed

text \<open>
  The claim as written fails: for a checksum file whose first line is blank, the first
  line has no token, and the hash rendered is the first token of the second line.
\<close>

theorem checksum_blank_line_counterexample:
  \<open>read_text blank_line_world LocaleDefault (str ''amo_linux_amd64.sha256'')
     = Inr (str ''\<newline>abcd1234  amo_linux_amd64\<newline>'')
   \<and> first_token (first_line (str ''\<newline>abcd1234  amo_linux_amd64\<newline>'')) = None
   \<and> generate_checksums_section blank_line_world =
       str ''\<newline>                <div class="checksum-item">\<newline>                    <div class="checksum-filename">amo_linux_amd64</div>\<newline>                    <div class="checksum-hash">abcd1234</div>\<newline>                </div>''\<close>
proof -
  have g: "glob blank_line_world (str ''*.sha256'') = [str ''amo_linux_amd64.sha256'']"
    by (simp add: glob_def has_magic_def ishidden_def blank_line_world_def scenario_def str_def)
  have f: "isfile blank_line_world (str ''amo_linux_amd64'')"
    by (simp add: blank_line_world_def scenario_def)
  have r: "read_text blank_line_world LocaleDefault (str ''amo_linux_amd64.sha256'')
     = Inr (str ''\<newline>abcd1234  amo_linux_amd64\<newline>'')"
    by (simp add: blank_line_world_def)
  have t: "first_token (str ''\<newline>abcd1234  amo_linux_amd64\<newline>'') = Some (str ''abcd1234'')"
    by (simp add: first_token_def is_space_def str_def)
  have l: "first_token (first_line (str ''\<newline>abcd1234  amo_linux_amd64\<newline>'')) = None"
    by (simp add: first_token_def first_line_def str_def)
  have \<open>checksum_entry blank_line_world (str ''amo_linux_amd64.sha256'') =
       str ''\<newline>                <div class="checksum-item">\<newline>                    <div class="checksum-filename">amo_linux_amd64</div>\<newline>                    <div class="checksum-hash">abcd1234</div>\<newline>                </div>''\<close>
    by (simp add: checksum_entry_def checksum_item_def scenario_binary_name f r t)
       (simp add: str_def)
  then show ?thesis
    by (simp add: checksums_section_concat g r l)
qed

text \<open>
  C5. The code derives the artifact name with \<open>sha_file.replace('.sha256', '')\<close>, which
  deletes every occurrence of \<open>.sha256\<close>, not the suffix alone. In a directory holding
  \<open>app\<close> and \<open>app.sha256.sha256\<close> the name with its suffix stripped is \<open>app.sha256\<close>,
  which is no file, so the entry should be left out; the code looks for \<open>app\<close>, finds
  it, and lists \<open>app\<close> with the hash of another file.
\<close>

theorem checksums_double_suffix:
  \<open>glob double_suffix_world (str ''*.sha256'') = [str ''app.sha256.sha256'']
   \<and> strip_sha256_suffix (str ''app.sha256.sha256'') = str ''app.sha256''
   \<and> \<not> isfile double_suffix_world (str ''app.sha256'')
   \<and> str_replace (str ''.sha256'') [] (str ''app.sha256.sha256'') = str ''app''
   \<and> generate_checksums_section double_suffix_world
       = checksum_item (str ''app'') (str ''beef0000'')
   \<and> generate_checksums_section double_suffix_world =
       str ''\<newline>                <div class="checksum-item">\<newline>                    <div class="checksum-filename">app</div>\<newline>                    <div class="checksum-hash">beef0000</div>\<newline>                </div>''\<close>
proof -
  have g: "glob double_suffix_world (str ''*.sha256'') = [str ''app.sha256.sha256'']"
    by (simp add: glob_def has_magic_def ishidden_def double_suffix_world_def str_def)
  have s: "strip_sha256_suffix (str ''app.sha256.sha256'') = str ''app.sha256''"
    by (simp add: strip_sha256_suffix_def str_def)
  have n: "\<not> isfile double_suffix_world (str ''app.sha256'')"
    by (simp add: double_suffix_world_def str_def)
  have b: "str_replace (str ''.sha256'') [] (str ''app.sha256.sha256'') = str ''app''"
    by (simp add: str_replace_def str_def)
  have f: "isfile double_suffix_world (str ''app'')"
    by (simp add: double_suffix_world_def)
  have r: "read_text double_suffix_world LocaleDefault (str ''app.sha256.sha256'')
           = Inr (str ''beef0000  app.sha256'')"
    by (simp add: double_suffix_world_def)
  have t: "first_token (str ''beef0000  app.sha256'') = Some (str ''beef0000'')"
    by (simp add: first_token_def is_space_def str_def)
  have e: "checksum_entry double_suffix_world (str ''app.sha256.sha256'')
        = checksum_item (str ''app'') (str ''beef0000'')"
    by (simp add: checksum_entry_def b f r t)
  have i: \<open>checksum_item (str ''app'') (str ''beef0000'') =
       str ''\<newline>                <div class="checksum-item">\<newline>                    <div class="checksum-filename">app</div>\<newline>                    <div class="checksum-hash">beef0000</div>\<newline>                </div>''\<close>
    by (simp add: checksum_item_def str_def)
  show ?thesis
    by (simp add: checksums_section_concat g s n b e) (simp add: i)
qed

section \<open>Runs of the default generator\<close>

lemma before_end_ok: "snd a = None \<Longrightarrow> before_end a k = (fst a @ fst k, snd k)"
  by (simp add: before_end_def)

lemma before_end_raise: "snd a = Some err \<Longrightarrow> before_end a k = (fst a, Uncaught err)"
  by (simp add: before_end_def)

lemma and_then_ok: "snd a = None \<Longrightarrow> and_then a b = (fst a @ fst b, snd b)"
  by (simp add: and_then_def)

lemma and_then_raise: "snd a = Some err \<Longrightarrow> and_then a b = a"
  by (simp add: and_then_def)

lemma main_usage:
  "length argv \<noteq> 4 \<Longrightarrow>
   main w argv =
     ([Print (str ''Usage: generate-download-page.py <template_file> <tag_name> <release_name>'')],
      case print_text w
             (str ''Usage: generate-download-page.py <template_file> <tag_name> <release_name>'')
      of None \<Rightarrow> Exit 1 | Some err \<Rightarrow> Uncaught err)"
  by (simp add: main_def before_end_def py_print_def split: option.splits)

lemma main_not_found:
  "length argv = 4 \<Longrightarrow> read_text w LocaleDefault (argv ! 1) = Inl FileNotFoundError \<Longrightarrow>
   main w argv =
     ([Print (str ''Error: Template file '' @ argv ! 1 @ str '' not found'')],
      case print_text w (str ''Error: Template file '' @ argv ! 1 @ str '' not found'')
      of None \<Rightarrow> Exit 1 | Some err \<Rightarrow> Uncaught err)"
  by (simp add: main_def Let_def before_end_def py_print_def split: option.splits)

lemma main_unreadable:
  "length argv = 4 \<Longrightarrow> read_text w LocaleDefault (argv ! 1) = Inl err \<Longrightarrow>
   err \<noteq> FileNotFoundError \<Longrightarrow> main w argv = ([], Uncaught err)"
  by (simp add: main_def Let_def)

lemma main_read:
  "length argv = 4 \<Longrightarrow> read_text w LocaleDefault (argv ! 1) = Inr content \<Longrightarrow>
   main w argv =
     before_end
       (py_write w LocaleDefault (str ''index.html'')
          (download_page w content (argv ! 2) (argv ! 3)))
       (before_end (py_print w ([9989] @ str '' Generated index.html successfully''))
          (before_end (copy_installation_scripts w) ([], Exit 0)))"
  by (simp add: main_def Let_def)

lemma main_write_fails:
  assumes "length argv = 4" "read_text w LocaleDefault (argv ! 1) = Inr content"
    "write_text w LocaleDefault (str ''index.html'')
       (download_page w content (argv ! 2) (argv ! 3)) = Some err"
  shows "main w argv =
     ([WriteFile (str ''index.html'') LocaleDefault
         (download_page w content (argv ! 2) (argv ! 3))], Uncaught err)"
  unfolding main_read [OF assms(1,2)]
  by (simp add: before_end_def py_write_def assms(3))

lemma main_print_fails:
  assumes "length argv = 4" "read_text w LocaleDefault (argv ! 1) = Inr content"
    "write_text w LocaleDefault (str ''index.html'')
       (download_page w content (argv ! 2) (argv ! 3)) = None"
    "print_text w ([9989] @ str '' Generated index.html successfully'') = Some err"
  shows "main w argv =
     ([WriteFile (str ''index.html'') LocaleDefault
         (download_page w content (argv ! 2) (argv ! 3)),
       Print ([9989] @ str '' Generated index.html successfully'')], Uncaught err)"
  unfolding main_read [OF assms(1,2)]
  using assms(4) by (simp add: before_end_def py_write_def py_print_def assms(3))

lemma main_printed:
  assumes "length argv = 4" "read_text w LocaleDefault (argv ! 1) = Inr content"
    "write_text w LocaleDefault (str ''index.html'')
       (download_page w content (argv ! 2) (argv ! 3)) = None"
    "print_text w ([9989] @ str '' Generated index.html successfully'') = None"
  shows "main w argv =
     (WriteFile (str ''index.html'') LocaleDefault
         (download_page w content (argv ! 2) (argv ! 3))
      # Print ([9989] @ str '' Generated index.html successfully'')
      # fst (copy_installation_scripts w),
      case snd (copy_installation_scripts w) of None \<Rightarrow> Exit 0 | Some err \<Rightarrow> Uncaught err)"
  unfolding main_read [OF assms(1,2)]
  using assms(4)
  by (simp add: before_end_def py_write_def py_print_def assms(3) split: option.splits)

lemma main_exit_0:
  assumes "snd (main w argv) = Exit 0"
  shows "length argv = 4
    \<and> (\<exists>content. read_text w LocaleDefault (argv ! 1) = Inr content
         \<and> write_text w LocaleDefault (str ''index.html'')
              (download_page w content (argv ! 2) (argv ! 3)) = None
         \<and> print_text w ([9989] @ str '' Generated index.html successfully'') = None
         \<and> snd (copy_installation_scripts w) = None)"
proof -
  have l: "length argv = 4"
  proof (rule ccontr)
    assume "length argv \<noteq> 4"
    from main_usage [OF this, of w] assms show False by (simp split: option.splits)
  qed
  show ?thesis
  proof (cases "read_text w LocaleDefault (argv ! 1)")
    case (Inl err)
    show ?thesis
    proof (cases "err = FileNotFoundError")
      case True
      with main_not_found [OF l, of w] Inl assms show ?thesis by (simp split: option.splits)
    next
      case False
      with main_unreadable [OF l Inl] assms show ?thesis by simp
    qed
  next
    case (Inr content)
    show ?thesis
    proof (cases "write_text w LocaleDefault (str ''index.html'')
                    (download_page w content (argv ! 2) (argv ! 3))")
      case (Some err)
      with main_write_fails [OF l Inr] assms show ?thesis by simp
    next
      case None
      note wr = this
      show ?thesis
      proof (cases "print_text w ([9989] @ str '' Generated index.html successfully'')")
        case (Some err)
        with main_print_fails [OF l Inr wr] assms show ?thesis by simp
      next
        case None
        from main_printed [OF l Inr wr None] assms
        have "snd (copy_installation_scripts w) = None" by (simp split: option.splits)
        with l Inr wr None show ?thesis by simp
      qed
    qed
  qed
qed

text \<open>
  C7 (as amended). With an argument count other than three the run prints the usage
  message and, the message printed, exits with code 1; it issues no other call. With
  three arguments and a template that does not exist, it prints the error message and
  exits with code 1, and issues no other call. Any other failure to read the template is
  not caught: the run ends with that exception, before any output is written. Nor is an
  exception of \<open>print\<close> or of writing the page caught: when standard output cannot take
  the success message, the run ends with that exception after the page is written. The
  exit code is 0 exactly when the template is read and the page is written, the success
  message printed and the installer scripts handled without exception.
\<close>

theorem main_outcomes:
  "(length argv \<noteq> 4 \<longrightarrow>
      main w argv =
        ([Print (str ''Usage: generate-download-page.py <template_file> <tag_name> <release_name>'')],
         case print_text w
                (str ''Usage: generate-download-page.py <template_file> <tag_name> <release_name>'')
         of None \<Rightarrow> Exit 1 | Some err \<Rightarrow> Uncaught err))
   \<and> (length argv = 4 \<and> read_text w LocaleDefault (argv ! 1) = Inl FileNotFoundError \<longrightarrow>
      main w argv =
        ([Print (str ''Error: Template file '' @ argv ! 1 @ str '' not found'')],
         case print_text w (str ''Error: Template file '' @ argv ! 1 @ str '' not found'')
         of None \<Rightarrow> Exit 1 | Some err \<Rightarrow> Uncaught err))
   \<and> (length argv = 4 \<and> read_text w LocaleDefault (argv ! 1) = Inl err
        \<and> err \<noteq> FileNotFoundError \<longrightarrow>
      main w argv = ([], Uncaught err))
   \<and> (length argv = 4 \<and> read_text w LocaleDefault (argv ! 1) = Inr content
        \<and> write_text w LocaleDefault (str ''index.html'')
             (download_page w content (argv ! 2) (argv ! 3)) = Some err \<longrightarrow>
      main w argv =
        ([WriteFile (str ''index.html'') LocaleDefault
            (download_page w content (argv ! 2) (argv ! 3))], Uncaught err))
   \<and> (length argv = 4 \<and> read_text w LocaleDefault (argv ! 1) = Inr content
        \<and> write_text w LocaleDefault (str ''index.html'')
             (download_page w content (argv ! 2) (argv ! 3)) = None
        \<and> print_text w ([9989] @ str '' Generated index.html successfully'') = Some err \<longrightarrow>
      main w argv =
        ([WriteFile (str ''index.html'') LocaleDefault
            (download_page w content (argv ! 2) (argv ! 3)),
          Print ([9989] @ str '' Generated index.html successfully'')], Uncaught err))
   \<and> (length argv = 4 \<and> read_text w LocaleDefault (argv ! 1) = Inr content
        \<and> write_text w LocaleDefault (str ''index.html'')
             (download_page w content (argv ! 2) (argv ! 3)) = None
        \<and> print_text w ([9989] @ str '' Generated index.html successfully'') = None \<longrightarrow>
      main w argv =
        (WriteFile (str ''index.html'') LocaleDefault
            (download_page w content (argv ! 2) (argv ! 3))
         # Print ([9989] @ str '' Generated index.html successfully'')
         # fst (copy_installation_scripts w),
         case snd (copy_installation_scripts w) of
           None \<Rightarrow> Exit 0
         | Some err \<Rightarrow> Uncaught err))
   \<and> (snd (main w argv) = Exit 0 \<longrightarrow>
        length argv = 4
        \<and> (\<exists>content. read_text w LocaleDefault (argv ! 1) = Inr content
             \<and> write_text w LocaleDefault (str ''index.html'')
                  (download_page w content (argv ! 2) (argv ! 3)) = None
             \<and> print_text w ([9989] @ str '' Generated index.html successfully'') = None
             \<and> snd (copy_installation_scripts w) = None))"
  using main_usage [of argv w] main_not_found [of argv w] main_unreadable [of argv w err]
    main_write_fails [of argv w content err] main_print_fails [of argv w content err]
    main_printed [of argv w content] main_exit_0 [of w argv]
  by blast

lemma copy_loop_ok:
  assumes "\<And>src dst. copy2 w src dst = None" "\<And>s. print_text w s = None"
  shows "snd (copy_loop w xs) = None"
proof (induction xs)
  case Nil
  then show ?case by simp
next
  case (Cons x xs)
  obtain script_name description where x: "x = (script_name, description)" by (cases x)
  show ?case
    using Cons.IH by (simp add: x assms Let_def and_then_def py_copy2_def py_print_def)
qed

lemma scenario_copy: "snd (copy_installation_scripts scenario) = None"
  unfolding copy_installation_scripts_def
  by (rule copy_loop_ok) (simp_all add: scenario_def)


lemma scenario_read:
  "read_text scenario LocaleDefault (scenario_argv ! 1) =
     Inr (str ''<h1>{{RELEASE_NAME}} {{TAG_NAME}}</h1>{{DOWNLOAD_SECTIONS}}{{CHECKSUMS}}'')"
  by (simp add: scenario_def scenario_argv_def)

lemma scenario_argv_length: "length scenario_argv = 4"
  by (simp add: scenario_argv_def)

lemma ascii_stdout_facts:
  "read_text ascii_stdout_world LocaleDefault (scenario_argv ! 1) =
     Inr (str ''<h1>{{RELEASE_NAME}} {{TAG_NAME}}</h1>{{DOWNLOAD_SECTIONS}}{{CHECKSUMS}}'')"
  "write_text ascii_stdout_world enc p s = None"
  "print_text ascii_stdout_world ([9989] @ str '' Generated index.html successfully'')
     = Some UnicodeError"
  by (simp_all add: ascii_stdout_world_def scenario_def scenario_argv_def is_ascii_def)

theorem main_outcomes_witness:
  "length [str ''generate-download-page.py'', str ''template.html''] \<noteq> 4
   \<and> main scenario [str ''generate-download-page.py'', str ''template.html''] =
        ([Print (str ''Usage: generate-download-page.py <template_file> <tag_name> <release_name>'')],
         Exit 1)
   \<and> length scenario_argv = 4
   \<and> read_text scenario LocaleDefault (scenario_argv ! 1) =
        Inr (str ''<h1>{{RELEASE_NAME}} {{TAG_NAME}}</h1>{{DOWNLOAD_SECTIONS}}{{CHECKSUMS}}'')
   \<and> snd (copy_installation_scripts scenario) = None
   \<and> snd (main scenario scenario_argv) = Exit 0
   \<and> print_text ascii_stdout_world ([9989] @ str '' Generated index.html successfully'')
       = Some UnicodeError
   \<and> main ascii_stdout_world scenario_argv =
        ([WriteFile (str ''index.html'') LocaleDefault
            (download_page ascii_stdout_world
               (str ''<h1>{{RELEASE_NAME}} {{TAG_NAME}}</h1>{{DOWNLOAD_SECTIONS}}{{CHECKSUMS}}'')
               (scenario_argv ! 2) (scenario_argv ! 3)),
          Print ([9989] @ str '' Generated index.html successfully'')],
         Uncaught UnicodeError)"
proof -
  have pr: "\<And>s. print_text scenario s = None" by (simp add: scenario_def)
  have wr: "\<And>p s. write_text scenario LocaleDefault p s = None" by (simp add: scenario_def)
  have n: "length [str ''generate-download-page.py'', str ''template.html''] \<noteq> 4" by simp
  have u: "main scenario [str ''generate-download-page.py'', str ''template.html''] =
        ([Print (str ''Usage: generate-download-page.py <template_file> <tag_name> <release_name>'')],
         Exit 1)"
    using main_outcomes [of "[str ''generate-download-page.py'', str ''template.html'']" scenario,
        THEN conjunct1, THEN mp, OF n]
    by (simp only: pr option.case)
  have "main scenario scenario_argv =
        (WriteFile (str ''index.html'') LocaleDefault
            (download_page scenario
               (str ''<h1>{{RELEASE_NAME}} {{TAG_NAME}}</h1>{{DOWNLOAD_SECTIONS}}{{CHECKSUMS}}'')
               (scenario_argv ! 2) (scenario_argv ! 3))
         # Print ([9989] @ str '' Generated index.html successfully'')
         # fst (copy_installation_scripts scenario),
         case snd (copy_installation_scripts scenario) of
           None \<Rightarrow> Exit 0
         | Some err \<Rightarrow> Uncaught err)"
    by (rule main_outcomes [of scenario_argv scenario _
          "str ''<h1>{{RELEASE_NAME}} {{TAG_NAME}}</h1>{{DOWNLOAD_SECTIONS}}{{CHECKSUMS}}''",
          THEN conjunct2, THEN conjunct2, THEN conjunct2, THEN conjunct2, THEN conjunct2,
          THEN conjunct1, THEN mp])
       (intro conjI scenario_argv_length scenario_read wr pr)
  then have ok: "snd (main scenario scenario_argv) = Exit 0"
    by (simp only: scenario_copy snd_conv option.case)
  have a: "main ascii_stdout_world scenario_argv =
        ([WriteFile (str ''index.html'') LocaleDefault
            (download_page ascii_stdout_world
               (str ''<h1>{{RELEASE_NAME}} {{TAG_NAME}}</h1>{{DOWNLOAD_SECTIONS}}{{CHECKSUMS}}'')
               (scenario_argv ! 2) (scenario_argv ! 3)),
          Print ([9989] @ str '' Generated index.html successfully'')],
         Uncaught UnicodeError)"
    by (rule main_outcomes [of scenario_argv ascii_stdout_world UnicodeError
          "str ''<h1>{{RELEASE_NAME}} {{TAG_NAME}}</h1>{{DOWNLOAD_SECTIONS}}{{CHECKSUMS}}''",
          THEN conjunct2, THEN conjunct2, THEN conjunct2, THEN conjunct2,
          THEN conjunct1, THEN mp])
       (intro conjI scenario_argv_length ascii_stdout_facts)
  show ?thesis
    by (intro conjI n u scenario_argv_length scenario_read scenario_copy ok
        ascii_stdout_facts(3) a)
qed

text \<open>
  The claim as written fails: a template that exists and may not be read ends the run
  with an uncaught \<open>PermissionError\<close>, and no message of the program; and on a standard
  output that takes ASCII only, the run ends with an uncaught \<open>UnicodeEncodeError\<close> after
  the page is written.
\<close>

theorem main_unreadable_counterexample:
  "length scenario_argv = 4
   \<and> read_text unreadable_world LocaleDefault (scenario_argv ! 1) = Inl PermissionError
   \<and> main unreadable_world scenario_argv = ([], Uncaught PermissionError)
   \<and> snd (main ascii_stdout_world scenario_argv) = Uncaught UnicodeError"
proof -
  have r: "read_text unreadable_world LocaleDefault (scenario_argv ! 1) = Inl PermissionError"
    by (simp add: unreadable_world_def scenario_argv_def)
  have m: "main unreadable_world scenario_argv = ([], Uncaught PermissionError)"
    by (rule main_unreadable [OF scenario_argv_length r]) simp
  have a: "snd (main ascii_stdout_world scenario_argv) = Uncaught UnicodeError"
    by (simp only: main_print_fails [OF scenario_argv_length ascii_stdout_facts(1)
        ascii_stdout_facts(2) ascii_stdout_facts(3)] snd_conv)
  show ?thesis by (intro conjI scenario_argv_length r m a)
qed

section \<open>The end-to-end scenario\<close>

text \<open>
  The scenario of the specification: the page of the default generator has the heading
  "First Release v1.0", one Linux card with a link to \<open>amo_linux_amd64\<close> under the caption
  "64-bit", bullet, "10.0B", and one checksum item pairing the file with \<open>abcd1234\<close>.
\<close>

lemma scenario_glob_windows: "glob scenario (str ''amo_windows_*.exe'') = []"
  by (simp add: glob_def has_magic_def ishidden_def scenario_def str_def)

lemma scenario_sections:
  "generate_platform_section scenario (str ''Linux'') [128039] (str ''amo_linux_*'')
     = platform_card_open (str ''Linux'') [128039]
       @ download_entry (str ''amo_linux_amd64'') (str ''64-bit'') (str ''10.0B'')
       @ platform_card_close"
  "generate_platform_section scenario (str ''macOS'') [127822] (str ''amo_darwin_*'') = []"
  "generate_platform_section scenario (str ''Windows'') [129695] (str ''amo_windows_*.exe'') = []"
  by (simp_all add: generate_platform_section_def Let_def platform_loop_concat
      scenario_files_linux scenario_glob_darwin scenario_glob_windows scenario_size
      basename_amo scenario_arch)

lemma scenario_checksums:
  "generate_checksums_section scenario = checksum_item (str ''amo_linux_amd64'') (str ''abcd1234'')"
proof -
  have f: "isfile scenario (str ''amo_linux_amd64'')" by (simp add: scenario_def)
  have r: "read_text scenario LocaleDefault (str ''amo_linux_amd64.sha256'')
           = Inr (str ''abcd1234 amo_linux_amd64'')"
    by (simp add: scenario_def str_def)
  show ?thesis
    by (simp add: checksums_section_concat scenario_glob_sha checksum_entry_def
        scenario_binary_name scenario_first_token f r)
qed

lemma scenario_page:
  \<open>download_page scenario
     (str ''<h1>{{RELEASE_NAME}} {{TAG_NAME}}</h1>{{DOWNLOAD_SECTIONS}}{{CHECKSUMS}}'')
     (str ''v1.0'') (str ''First Release'')
   = str ''<h1>First Release v1.0</h1>                <div class="platform-card">\<newline>                    <h3><span class="platform-icon">''
     @ [128039]
     @ str ''</span>Linux</h3>\<newline>                    <a href="amo_linux_amd64" class="download-link">amo_linux_amd64</a>\<newline>                    <div class="file-info">64-bit ''
     @ [8226]
     @ str '' 10.0B</div>\<newline>                </div>\<newline>                <div class="checksum-item">\<newline>                    <div class="checksum-filename">amo_linux_amd64</div>\<newline>                    <div class="checksum-hash">abcd1234</div>\<newline>                </div>'' \<close>
  unfolding download_page_def Let_def scenario_sections scenario_checksums
  by (simp add: replace_placeholders_def str_replace_def platform_card_open_def
      download_entry_def platform_card_close_def checksum_item_def str_def)

lemma scenario_page_not_ascii:
  \<open>\<not> is_ascii (str ''<h1>First Release v1.0</h1>                <div class="platform-card">\<newline>                    <h3><span class="platform-icon">''
     @ [128039]
     @ str ''</span>Linux</h3>\<newline>                    <a href="amo_linux_amd64" class="download-link">amo_linux_amd64</a>\<newline>                    <div class="file-info">64-bit ''
     @ [8226]
     @ str '' 10.0B</div>\<newline>                </div>\<newline>                <div class="checksum-item">\<newline>                    <div class="checksum-filename">amo_linux_amd64</div>\<newline>                    <div class="checksum-hash">abcd1234</div>\<newline>                </div>'' )\<close>
  by (simp add: is_ascii_def str_def)

section \<open>The two generators\<close>

lemma and_then_assoc: "and_then (and_then a b) c = and_then a (and_then b c)"
  by (simp add: and_then_def split: option.splits)

lemma and_then_nothing: "and_then ([], None) a = a"
  by (simp add: and_then_def)

lemma before_end_and_then: "before_end (and_then a b) k = before_end a (before_end b k)"
  by (simp add: and_then_def before_end_def split: option.splits)

lemma default_fields:
  "lc_unknown default_variant = str ''Unknown''"
  "lc_64bit default_variant = str ''64-bit''"
  "lc_usage default_variant
     = str ''Usage: generate-download-page.py <template_file> <tag_name> <release_name>''"
  "lc_not_found default_variant f = str ''Error: Template file '' @ f @ str '' not found''"
  "lc_generated default_variant out = [9989] @ str '' Generated index.html successfully''"
  "lc_copied default_variant n d = [9989] @ str '' Copied '' @ n @ str '' ('' @ d @ str '')''"
  "lc_missing default_variant n src
     = [9888, 65039] @ str '' Warning: '' @ n @ str '' not found at '' @ src"
  "lc_scripts default_variant = scripts"
  "lc_subdir default_variant = None"
  "lc_encoding default_variant = LocaleDefault"
  by (simp_all add: default_variant_def)

lemma zh_fields:
  "lc_unknown zh_variant = [26410, 30693]"
  "lc_64bit zh_variant = str ''64'' @ [20301]"
  "lc_usage zh_variant
     = [29992, 27861] @ str '': generate-download-page-zh.py <''
       @ [27169, 26495, 25991, 20214] @ str ''> <'' @ [26631, 31614, 21517]
       @ str ''> <'' @ [21457, 24067, 21517] @ str ''>''"
  "lc_not_found zh_variant f
     = [38169, 35823] @ str '': '' @ [27169, 26495, 25991, 20214]
       @ str '' '' @ f @ str '' '' @ [26410, 25214, 21040]"
  "lc_generated zh_variant out
     = [9989] @ str '' '' @ [25104, 21151, 29983, 25104] @ str '' '' @ out"
  "lc_copied zh_variant n d
     = [9989] @ str '' '' @ [24050, 22797, 21046] @ str '' '' @ n
       @ str '' ('' @ d @ str '')''"
  "lc_missing zh_variant n src
     = [9888, 65039] @ str '' '' @ [35686, 21578] @ str '': '' @ [22312]
       @ str '' '' @ src @ str '' '' @ [26410, 25214, 21040] @ str '' '' @ n"
  "lc_scripts zh_variant = scripts_zh"
  "lc_subdir zh_variant = Some (str ''zh'')"
  "lc_encoding zh_variant = UTF8"
  by (simp_all add: zh_variant_def)

lemma size_default: "get_file_size w f = unified_size default_variant w f"
  by (simp add: get_file_size_def unified_size_def default_fields split: sum.splits)

lemma size_zh: "get_file_size_zh w f = unified_size zh_variant w f"
  by (simp add: get_file_size_zh_def unified_size_def zh_fields split: sum.splits)

lemma arch_default: "get_arch_info f = unified_arch default_variant f"
  by (simp add: get_arch_info_def unified_arch_def default_fields Let_def)

lemma arch_zh: "get_arch_info_zh f = unified_arch zh_variant f"
  by (simp add: get_arch_info_zh_def unified_arch_def zh_fields Let_def)

lemma platform_loop_zh_concat:
  "platform_loop_zh w acc files =
     acc @ concat (map (\<lambda>f. download_entry (basename f) (get_arch_info_zh (basename f))
                              (get_file_size_zh w f)) files)"
  by (induction files arbitrary: acc) (simp_all add: Let_def)

lemma platform_default:
  "generate_platform_section w n i pat = unified_platform_section default_variant w n i pat"
  by (simp add: generate_platform_section_def unified_platform_section_def Let_def
      platform_loop_concat size_default arch_default)

lemma platform_zh:
  "generate_platform_section_zh w n i pat = unified_platform_section zh_variant w n i pat"
  by (simp add: generate_platform_section_zh_def unified_platform_section_def Let_def
      platform_loop_zh_concat size_zh arch_zh)

lemma checksums_default: "generate_checksums_section w = unified_checksums_section w"
  by (simp add: checksums_section_concat unified_checksums_section_def)

lemma checksums_loop_zh_eq: "checksums_loop_zh w acc fs = checksums_loop w acc fs"
  by (induction fs arbitrary: acc) (simp_all add: Let_def split: sum.splits)

lemma checksums_zh: "generate_checksums_section_zh w = generate_checksums_section w"
  by (simp add: generate_checksums_section_zh_def generate_checksums_section_def
      checksums_loop_zh_eq Let_def)

lemma page_default: "download_page w c t r = unified_page default_variant w c t r"
  by (simp add: download_page_def unified_page_def Let_def platform_default checksums_default)

lemma page_zh: "download_page_zh w c t r = unified_page zh_variant w c t r"
  by (simp add: download_page_zh_def unified_page_def Let_def platform_zh checksums_zh
      checksums_default)

lemma copy_default: "copy_loop w xs = unified_scripts default_variant w xs"
proof (induction xs)
  case Nil
  then show ?case by (simp add: unified_scripts_def)
next
  case (Cons x xs)
  obtain script_name description where x: "x = (script_name, description)" by (cases x)
  have u: "unified_scripts default_variant w (x # xs)
           = and_then (unified_script default_variant w x) (unified_scripts default_variant w xs)"
    by (simp add: unified_scripts_def)
  show ?case
    unfolding u Cons.IH [symmetric]
    by (simp add: x unified_script_def Let_def default_fields and_then_assoc)
qed

lemma copy_zh: "copy_loop_zh w xs = unified_scripts zh_variant w xs"
proof (induction xs)
  case Nil
  then show ?case by (simp add: unified_scripts_def)
next
  case (Cons x xs)
  obtain script_name description where x: "x = (script_name, description)" by (cases x)
  have u: "unified_scripts zh_variant w (x # xs)
           = and_then (unified_script zh_variant w x) (unified_scripts zh_variant w xs)"
    by (simp add: unified_scripts_def)
  show ?case
    unfolding u Cons.IH [symmetric]
    by (simp add: x unified_script_def Let_def zh_fields and_then_assoc)
qed

lemma main_default: "main w argv = unified_main default_variant w argv"
proof (cases "length argv = 4")
  case False
  then show ?thesis by (simp add: main_def unified_main_def default_fields)
next
  case True
  show ?thesis
  proof (cases "read_text w LocaleDefault (argv ! 1)")
    case (Inl err)
    then show ?thesis using True
      by (simp add: main_def unified_main_def default_fields Let_def)
  next
    case (Inr content)
    have out: "output_path default_variant = str ''index.html''"
      by (simp add: output_path_def default_fields)
    have "unified_main default_variant w argv =
        before_end
          (unified_output default_variant w
             (unified_page default_variant w content (argv ! 2) (argv ! 3)))
          ([], Exit 0)"
      using True Inr by (simp add: unified_main_def default_fields)
    also have "\<dots> =
        before_end
          (py_write w LocaleDefault (str ''index.html'')
             (download_page w content (argv ! 2) (argv ! 3)))
          (before_end (py_print w ([9989] @ str '' Generated index.html successfully''))
             (before_end (copy_installation_scripts w) ([], Exit 0)))"
      by (simp add: unified_output_def default_fields out and_then_nothing before_end_and_then
          page_default copy_installation_scripts_def copy_default)
    also have "\<dots> = main w argv"
      using main_read [OF True Inr] by simp
    finally show ?thesis by simp
  qed
qed

lemma main_zh_read:
  "length argv = 4 \<Longrightarrow> read_text w UTF8 (argv ! 1) = Inr content \<Longrightarrow>
   main_zh w argv =
     before_end (py_mkdir w (str ''zh''))
       (before_end
          (py_write w UTF8 (str ''zh/index.html'')
             (download_page_zh w content (argv ! 2) (argv ! 3)))
          (before_end
             (py_print w ([9989] @ str '' '' @ [25104, 21151, 29983, 25104] @ str '' ''
                          @ str ''zh/index.html''))
             (before_end (copy_installation_scripts_zh w) ([], Exit 0))))"
proof -
  have p: "str ''zh'' @ str ''/'' @ str ''index.html'' = str ''zh/index.html''"
    by (simp add: str_def)
  assume "length argv = 4" "read_text w UTF8 (argv ! 1) = Inr content"
  then show ?thesis by (simp add: main_zh_def Let_def p)
qed

lemma main_zh_variant: "main_zh w argv = unified_main zh_variant w argv"
proof (cases "length argv = 4")
  case False
  then show ?thesis by (simp add: main_zh_def unified_main_def zh_fields)
next
  case True
  show ?thesis
  proof (cases "read_text w UTF8 (argv ! 1)")
    case (Inl err)
    then show ?thesis using True
      by (simp add: main_zh_def unified_main_def zh_fields Let_def)
  next
    case (Inr content)
    have out: "output_path zh_variant = str ''zh/index.html''"
      by (simp add: output_path_def zh_fields str_def)
    have "unified_main zh_variant w argv =
        before_end
          (unified_output zh_variant w (unified_page zh_variant w content (argv ! 2) (argv ! 3)))
          ([], Exit 0)"
      using True Inr by (simp add: unified_main_def zh_fields)
    also have "\<dots> =
        before_end (py_mkdir w (str ''zh''))
          (before_end
             (py_write w UTF8 (str ''zh/index.html'')
                (download_page_zh w content (argv ! 2) (argv ! 3)))
             (before_end
                (py_print w ([9989] @ str '' '' @ [25104, 21151, 29983, 25104] @ str '' ''
                             @ str ''zh/index.html''))
                (before_end (copy_installation_scripts_zh w) ([], Exit 0))))"
      by (simp add: unified_output_def zh_fields out before_end_and_then
          page_zh copy_installation_scripts_zh_def copy_zh)
    also have "\<dots> = main_zh w argv"
      using main_zh_read [OF True Inr] by simp
    finally show ?thesis by simp
  qed
qed

lemma unified_page_microcopy:
  assumes "lc_unknown lc = lc_unknown lc'" "lc_64bit lc = lc_64bit lc'"
  shows "unified_page lc w c t r = unified_page lc' w c t r"
proof -
  have a: "\<And>f. unified_arch lc f = unified_arch lc' f"
    by (simp add: unified_arch_def assms)
  have z: "\<And>f. unified_size lc w f = unified_size lc' w f"
    by (simp add: unified_size_def assms split: sum.splits)
  have "\<And>n i pat. unified_platform_section lc w n i pat = unified_platform_section lc' w n i pat"
    by (simp only: unified_platform_section_def a z)
  then show ?thesis by (simp only: unified_page_def)
qed

text \<open>
  C9 (as amended). Both scripts are the one generator \<open>unified_main\<close>, the default script
  with \<open>default_variant\<close> and the Chinese script with \<open>zh_variant\<close>: they differ in the
  microcopy, in the place of the output (the Chinese script makes the directory \<open>zh\<close>
  first) and in the encoding given to \<open>open\<close> for the template and the page. For one
  template content the two pages are made by \<open>unified_page\<close>, which depends on the variant
  through the "unknown" sentinel and the 64-bit label alone. Patterns, filtering, order,
  checksums, replacements, and the names, order and destination of the installer scripts
  are the same.
\<close>

theorem generators_unified:
  "main w argv = unified_main default_variant w argv
   \<and> main_zh w argv = unified_main zh_variant w argv
   \<and> download_page w c t r = unified_page default_variant w c t r
   \<and> download_page_zh w c t r = unified_page zh_variant w c t r
   \<and> (lc_unknown lc = lc_unknown lc' \<and> lc_64bit lc = lc_64bit lc'
        \<longrightarrow> unified_page lc w c t r = unified_page lc' w c t r)
   \<and> map fst (lc_scripts default_variant) = map fst (lc_scripts zh_variant)"
  using main_default [of w argv] main_zh_variant [of w argv] page_default [of w c t r]
    page_zh [of w c t r] unified_page_microcopy [of lc lc' w c t r]
  by (simp add: default_fields zh_fields scripts_def scripts_zh_def)



lemma copy_loop_zh_ok:
  assumes "\<And>src dst. copy2 w src dst = None" "\<And>s. print_text w s = None"
  shows "snd (copy_loop_zh w xs) = None"
proof (induction xs)
  case Nil
  then show ?case by simp
next
  case (Cons x xs)
  obtain script_name description where x: "x = (script_name, description)" by (cases x)
  show ?case
    using Cons.IH by (simp add: x assms Let_def and_then_def py_copy2_def py_print_def)
qed

theorem generators_unified_witness:
  "unified_main default_variant scenario scenario_argv = main scenario scenario_argv
   \<and> unified_main zh_variant scenario scenario_argv = main_zh scenario scenario_argv
   \<and> lc_unknown (zh_variant\<lparr>lc_subdir := None\<rparr>) = lc_unknown zh_variant
   \<and> lc_64bit (zh_variant\<lparr>lc_subdir := None\<rparr>) = lc_64bit zh_variant
   \<and> unified_page (zh_variant\<lparr>lc_subdir := None\<rparr>) scenario
         (str ''<h1>{{TAG_NAME}}</h1>'') (str ''v1.0'') (str ''First Release'')
       = download_page_zh scenario
           (str ''<h1>{{TAG_NAME}}</h1>'') (str ''v1.0'') (str ''First Release'')"
  using generators_unified [of scenario scenario_argv "str ''<h1>{{TAG_NAME}}</h1>''"
      "str ''v1.0''" "str ''First Release''"
      "zh_variant\<lparr>lc_subdir := None\<rparr>" zh_variant]
  by simp

lemma download_page_cong:
  assumes "listdir w = listdir w'" "isfile w = isfile w'" "getsize w = getsize w'"
    "read_text w LocaleDefault = read_text w' LocaleDefault" "glob_other w = glob_other w'"
  shows "download_page w c t r = download_page w' c t r"
proof -
  have g: "\<And>pat. glob w pat = glob w' pat" by (simp add: glob_def assms)
  have z: "\<And>f. get_file_size w f = get_file_size w' f" by (simp add: get_file_size_def assms)
  have ps: "\<And>n i pat. generate_platform_section w n i pat = generate_platform_section w' n i pat"
    by (simp add: generate_platform_section_def platform_loop_concat g z assms Let_def)
  have ce: "\<And>f. checksum_entry w f = checksum_entry w' f"
    unfolding checksum_entry_def assms(2) assms(4) by (rule refl)
  have "checksum_entry w = checksum_entry w'" by (rule ext) (rule ce)
  then have cs: "generate_checksums_section w = generate_checksums_section w'"
    by (simp add: checksums_section_concat g)
  show ?thesis by (simp add: download_page_def ps cs)
qed

lemma ascii_read_default:
  "read_text ascii_platform_world LocaleDefault = read_text scenario LocaleDefault"
proof
  fix p
  have t: "is_ascii (str ''<h1>{{RELEASE_NAME}} {{TAG_NAME}}</h1>{{DOWNLOAD_SECTIONS}}{{CHECKSUMS}}'')"
    by (simp add: is_ascii_def str_def)
  have c: "is_ascii (str ''abcd1234 amo_linux_amd64'')"
    by (simp add: is_ascii_def str_def)
  show "read_text ascii_platform_world LocaleDefault p = read_text scenario LocaleDefault p"
    by (simp add: ascii_platform_world_def scenario_def t c)
qed

lemma ascii_page:
  \<open>download_page ascii_platform_world (str ''<h1>{{RELEASE_NAME}} {{TAG_NAME}}</h1>{{DOWNLOAD_SECTIONS}}{{CHECKSUMS}}'') (str ''v1.0'') (str ''First Release'')
   = download_page scenario (str ''<h1>{{RELEASE_NAME}} {{TAG_NAME}}</h1>{{DOWNLOAD_SECTIONS}}{{CHECKSUMS}}'') (str ''v1.0'') (str ''First Release'')\<close>
  by (rule download_page_cong)
     (simp_all add: ascii_read_default, simp_all add: ascii_platform_world_def)

lemma ascii_facts:
  "read_text ascii_platform_world LocaleDefault (scenario_argv ! 1) = Inr (str ''<h1>{{RELEASE_NAME}} {{TAG_NAME}}</h1>{{DOWNLOAD_SECTIONS}}{{CHECKSUMS}}'')"
  "read_text ascii_platform_world UTF8 (scenario_argv ! 1) = Inr (str ''<h1>{{RELEASE_NAME}} {{TAG_NAME}}</h1>{{DOWNLOAD_SECTIONS}}{{CHECKSUMS}}'')"
  "scenario_argv ! 2 = str ''v1.0''"
  "scenario_argv ! 3 = str ''First Release''"
  "mkdir ascii_platform_world p = None"
  "write_text ascii_platform_world UTF8 p s = None"
  "print_text ascii_platform_world
     ([9989] @ str '' '' @ [25104, 21151, 29983, 25104] @ str '' '' @ str ''zh/index.html'')
   = Some UnicodeError"
  by (simp_all add: ascii_read_default scenario_read)
     (simp_all add: ascii_platform_world_def scenario_def scenario_argv_def is_ascii_def)

lemma ascii_write_fails:
  "write_text ascii_platform_world LocaleDefault (str ''index.html'')
     (download_page ascii_platform_world (str ''<h1>{{RELEASE_NAME}} {{TAG_NAME}}</h1>{{DOWNLOAD_SECTIONS}}{{CHECKSUMS}}'') (scenario_argv ! 2) (scenario_argv ! 3))
   = Some UnicodeError"
proof -
  have "\<not> is_ascii (download_page ascii_platform_world (str ''<h1>{{RELEASE_NAME}} {{TAG_NAME}}</h1>{{DOWNLOAD_SECTIONS}}{{CHECKSUMS}}'')
                      (str ''v1.0'') (str ''First Release''))"
    unfolding ascii_page scenario_page by (rule scenario_page_not_ascii)
  then show ?thesis
    by (simp add: ascii_facts(3,4) ascii_platform_world_def)
qed

lemma zh_file_facts:
  "read_text zh_file_world LocaleDefault (scenario_argv ! 1) = Inr (str ''<h1>{{RELEASE_NAME}} {{TAG_NAME}}</h1>{{DOWNLOAD_SECTIONS}}{{CHECKSUMS}}'')"
  "read_text zh_file_world UTF8 (scenario_argv ! 1) = Inr (str ''<h1>{{RELEASE_NAME}} {{TAG_NAME}}</h1>{{DOWNLOAD_SECTIONS}}{{CHECKSUMS}}'')"
  "write_text zh_file_world enc p s = None"
  "print_text zh_file_world s = None"
  "mkdir zh_file_world p = Some FileExistsError"
  by (simp_all add: zh_file_world_def scenario_def scenario_argv_def)

text \<open>
  The claim as written fails. On a platform whose default encoding is ASCII the template
  of the scenario, which is plain ASCII, is read by both generators; the default
  generator then fails to write its page, which holds the bullet and the icon, while the
  Chinese generator, which opens its output as UTF-8, writes its page and ends at the
  next \<open>print\<close>. And in a working directory where \<open>zh\<close> is a regular file, the default
  generator writes its page and exits with 0, while the Chinese generator ends at
  \<open>mkdir\<close>.
\<close>

theorem generators_encoding_counterexample:
  "is_ascii (str ''<h1>{{RELEASE_NAME}} {{TAG_NAME}}</h1>{{DOWNLOAD_SECTIONS}}{{CHECKSUMS}}'')
   \<and> write_text ascii_platform_world LocaleDefault (str ''index.html'')
        (download_page ascii_platform_world (str ''<h1>{{RELEASE_NAME}} {{TAG_NAME}}</h1>{{DOWNLOAD_SECTIONS}}{{CHECKSUMS}}'') (scenario_argv ! 2) (scenario_argv ! 3))
      = Some UnicodeError
   \<and> main ascii_platform_world scenario_argv =
        ([WriteFile (str ''index.html'') LocaleDefault
            (download_page ascii_platform_world (str ''<h1>{{RELEASE_NAME}} {{TAG_NAME}}</h1>{{DOWNLOAD_SECTIONS}}{{CHECKSUMS}}'')
               (scenario_argv ! 2) (scenario_argv ! 3))],
         Uncaught UnicodeError)
   \<and> write_text ascii_platform_world UTF8 (str ''zh/index.html'')
        (download_page_zh ascii_platform_world (str ''<h1>{{RELEASE_NAME}} {{TAG_NAME}}</h1>{{DOWNLOAD_SECTIONS}}{{CHECKSUMS}}'')
           (scenario_argv ! 2) (scenario_argv ! 3))
      = None
   \<and> main_zh ascii_platform_world scenario_argv =
        ([MakeDir (str ''zh''),
          WriteFile (str ''zh/index.html'') UTF8
            (download_page_zh ascii_platform_world (str ''<h1>{{RELEASE_NAME}} {{TAG_NAME}}</h1>{{DOWNLOAD_SECTIONS}}{{CHECKSUMS}}'')
               (scenario_argv ! 2) (scenario_argv ! 3)),
          Print ([9989] @ str '' '' @ [25104, 21151, 29983, 25104] @ str '' ''
                 @ str ''zh/index.html'')],
         Uncaught UnicodeError)
   \<and> snd (main zh_file_world scenario_argv) = Exit 0
   \<and> main_zh zh_file_world scenario_argv = ([MakeDir (str ''zh'')], Uncaught FileExistsError)"
proof -
  have t: "is_ascii (str ''<h1>{{RELEASE_NAME}} {{TAG_NAME}}</h1>{{DOWNLOAD_SECTIONS}}{{CHECKSUMS}}'')" by (simp add: is_ascii_def str_def)
  have m: "main ascii_platform_world scenario_argv =
        ([WriteFile (str ''index.html'') LocaleDefault
            (download_page ascii_platform_world (str ''<h1>{{RELEASE_NAME}} {{TAG_NAME}}</h1>{{DOWNLOAD_SECTIONS}}{{CHECKSUMS}}'')
               (scenario_argv ! 2) (scenario_argv ! 3))],
         Uncaught UnicodeError)"
    by (rule main_write_fails [OF scenario_argv_length ascii_facts(1) ascii_write_fails])
  have z: "main_zh ascii_platform_world scenario_argv =
        ([MakeDir (str ''zh''),
          WriteFile (str ''zh/index.html'') UTF8
            (download_page_zh ascii_platform_world (str ''<h1>{{RELEASE_NAME}} {{TAG_NAME}}</h1>{{DOWNLOAD_SECTIONS}}{{CHECKSUMS}}'')
               (scenario_argv ! 2) (scenario_argv ! 3)),
          Print ([9989] @ str '' '' @ [25104, 21151, 29983, 25104] @ str '' ''
                 @ str ''zh/index.html'')],
         Uncaught UnicodeError)"
    unfolding main_zh_read [OF scenario_argv_length ascii_facts(2)]
    using ascii_facts(7)
    by (simp add: before_end_def py_mkdir_def py_write_def py_print_def ascii_facts(5,6))
  have c: "snd (copy_installation_scripts zh_file_world) = None"
    unfolding copy_installation_scripts_def
    by (rule copy_loop_ok) (simp_all add: zh_file_world_def scenario_def)
  have z1: "snd (main zh_file_world scenario_argv) = Exit 0"
    unfolding main_printed [OF scenario_argv_length zh_file_facts(1) zh_file_facts(3)
        zh_file_facts(4)]
    by (simp add: c)
  have z2: "main_zh zh_file_world scenario_argv
            = ([MakeDir (str ''zh'')], Uncaught FileExistsError)"
    unfolding main_zh_read [OF scenario_argv_length zh_file_facts(2)]
    by (simp add: before_end_def py_mkdir_def zh_file_facts(5))
  show ?thesis
    by (intro conjI t ascii_write_fails m ascii_facts(6) z z1 z2)
qed

end
